theory Spec2Isabelle
  imports Main "HOL-Library.Monad_Syntax"
begin

unbundle bit_operations_syntax

section \<open>The graph store\<close>

text \<open>
  The embedder of \<^verbatim>\<open>graphEmbed.c\<close> works on one \<^verbatim>\<open>graphP\<close>: flat arrays of vertex
  records and of arc (half-edge) records that refer to each other by integer index, a
  reusable integer stack, and four list collections. The C arrays are modelled as total
  stores from \<open>int\<close> to records; C gives no meaning to an access outside the allocated
  arrays, and the model reads whatever the store holds there. The C \<^verbatim>\<open>int\<close> is modelled
  as \<open>int\<close>: every value is an index into an allocated array, a capacity, or \<open>NIL\<close>.
  The one product of two \<^verbatim>\<open>int\<close> values in the file, the \<^verbatim>\<open>2*gp_GetArcCapacity(theGraph)\<close>
  of the capacity test, is not bounded by an array size; it is written with \<open>c_int\<close>,
  the value of a 32-bit \<^verbatim>\<open>int\<close> expression whose value over the integers is \<open>x\<close>, which
  wraps around outside \<open>[-2^31, 2^31)\<close>.

  A loop whose termination depends on the linked structure it walks is a
  \<^theory_text>\<open>partial_function\<close> in the option monad: \<open>None\<close> stands for a run that does not
  return (or that pops the empty stack, to which C gives no meaning).
\<close>

text \<open>
  Modelled from the spec: the header \<^verbatim>\<open>appconst.h\<close> is not part of the sources. \<open>NIL\<close> is
  the "none" of the data model, a sentinel outside every valid index range; the three
  return codes are distinct values (\<open>NOTOK\<close> is the spec's INTERNAL).
\<close>

definition NIL :: int where
  "NIL = -1"

datatype result = OK | NOTOK | NONEMBEDDABLE

definition c_int :: "int \<Rightarrow> int" where
  "c_int x = (x + 2 ^ 31) mod 2 ^ 32 - 2 ^ 31"

text \<open>
  Modelled from the spec: \<^verbatim>\<open>graph.h\<close> and \<^verbatim>\<open>graphStructures.h\<close> are not part of the
  sources. The records follow the data model of the spec (section 3); the accessors below
  are the \<^verbatim>\<open>gp_Get...\<close>/\<^verbatim>\<open>gp_Set...\<close> macros that \<^verbatim>\<open>graphEmbed.c\<close> uses, each reading or
  writing the one field its name says.
\<close>

datatype edgeType =
  EDGE_TYPE_UNKNOWN | EDGE_TYPE_CHILD | EDGE_TYPE_PARENT | EDGE_TYPE_BACK | EDGE_TYPE_FORWARD

datatype internalFlag = FLAGS_DFSNUMBERED | FLAGS_SORTEDBYDFI

datatype activeStatus = VAS_INACTIVE | VAS_INTERNAL | VAS_EXTERNAL

record vertexRec =
  index :: int
  parent :: int
  visited :: bool
  visitedInfo :: int
  leastAncestor :: int
  lowpoint :: int
  sortedDFSChildList :: int
  separatedDFSChildList :: int
  pertinentBicompList :: int
  fwdArcList :: int
  pertinentAdjacencyInfo :: int
  firstArc :: int
  lastArc :: int
  extFace0 :: int
  extFace1 :: int
  extFaceInversionFlag :: bool

record arcRec =
  neighbor :: int
  nextArc :: int
  prevArc :: int
  etype :: edgeType
  inverted :: bool

record lcNode =
  lc_prev :: int
  lc_next :: int

type_synonym listCollection = "int \<Rightarrow> lcNode"

record stack =
  items :: "int list"
  capacity :: int

record graph =
  N :: int
  V :: "int \<Rightarrow> vertexRec"
  E :: "int \<Rightarrow> arcRec"
  arcCapacity :: int
  theStack :: stack
  internalFlags :: "internalFlag set"
  embedFlags :: int
  sortedDFSChildLists :: listCollection
  DFSChildLists :: listCollection
  BicompLists :: listCollection
  bin :: listCollection
  buckets :: "int \<Rightarrow> int"

subsection \<open>Vertex accessors\<close>

definition gp_GetVertexIndex :: "graph \<Rightarrow> int \<Rightarrow> int" where
  "gp_GetVertexIndex g v = index (V g v)"

definition gp_SetVertexIndex :: "graph \<Rightarrow> int \<Rightarrow> int \<Rightarrow> graph" where
  "gp_SetVertexIndex g v x = g\<lparr>V := (V g)(v := (V g v)\<lparr>index := x\<rparr>)\<rparr>"

definition gp_GetVertexParent :: "graph \<Rightarrow> int \<Rightarrow> int" where
  "gp_GetVertexParent g v = parent (V g v)"

definition gp_SetVertexParent :: "graph \<Rightarrow> int \<Rightarrow> int \<Rightarrow> graph" where
  "gp_SetVertexParent g v x = g\<lparr>V := (V g)(v := (V g v)\<lparr>parent := x\<rparr>)\<rparr>"

definition gp_GetVertexVisited :: "graph \<Rightarrow> int \<Rightarrow> bool" where
  "gp_GetVertexVisited g v = visited (V g v)"

definition gp_SetVertexVisited :: "graph \<Rightarrow> int \<Rightarrow> graph" where
  "gp_SetVertexVisited g v = g\<lparr>V := (V g)(v := (V g v)\<lparr>visited := True\<rparr>)\<rparr>"

definition gp_GetVertexVisitedInfo :: "graph \<Rightarrow> int \<Rightarrow> int" where
  "gp_GetVertexVisitedInfo g v = visitedInfo (V g v)"

definition gp_SetVertexVisitedInfo :: "graph \<Rightarrow> int \<Rightarrow> int \<Rightarrow> graph" where
  "gp_SetVertexVisitedInfo g v x = g\<lparr>V := (V g)(v := (V g v)\<lparr>visitedInfo := x\<rparr>)\<rparr>"

definition gp_GetVertexLeastAncestor :: "graph \<Rightarrow> int \<Rightarrow> int" where
  "gp_GetVertexLeastAncestor g v = leastAncestor (V g v)"

definition gp_SetVertexLeastAncestor :: "graph \<Rightarrow> int \<Rightarrow> int \<Rightarrow> graph" where
  "gp_SetVertexLeastAncestor g v x = g\<lparr>V := (V g)(v := (V g v)\<lparr>leastAncestor := x\<rparr>)\<rparr>"

definition gp_GetVertexLowpoint :: "graph \<Rightarrow> int \<Rightarrow> int" where
  "gp_GetVertexLowpoint g v = lowpoint (V g v)"

definition gp_SetVertexLowpoint :: "graph \<Rightarrow> int \<Rightarrow> int \<Rightarrow> graph" where
  "gp_SetVertexLowpoint g v x = g\<lparr>V := (V g)(v := (V g v)\<lparr>lowpoint := x\<rparr>)\<rparr>"

definition gp_GetVertexSortedDFSChildList :: "graph \<Rightarrow> int \<Rightarrow> int" where
  "gp_GetVertexSortedDFSChildList g v = sortedDFSChildList (V g v)"

definition gp_SetVertexSortedDFSChildList :: "graph \<Rightarrow> int \<Rightarrow> int \<Rightarrow> graph" where
  "gp_SetVertexSortedDFSChildList g v x =
     g\<lparr>V := (V g)(v := (V g v)\<lparr>sortedDFSChildList := x\<rparr>)\<rparr>"

definition gp_GetVertexSeparatedDFSChildList :: "graph \<Rightarrow> int \<Rightarrow> int" where
  "gp_GetVertexSeparatedDFSChildList g v = separatedDFSChildList (V g v)"

definition gp_SetVertexSeparatedDFSChildList :: "graph \<Rightarrow> int \<Rightarrow> int \<Rightarrow> graph" where
  "gp_SetVertexSeparatedDFSChildList g v x =
     g\<lparr>V := (V g)(v := (V g v)\<lparr>separatedDFSChildList := x\<rparr>)\<rparr>"

definition gp_GetVertexPertinentBicompList :: "graph \<Rightarrow> int \<Rightarrow> int" where
  "gp_GetVertexPertinentBicompList g v = pertinentBicompList (V g v)"

definition gp_SetVertexPertinentBicompList :: "graph \<Rightarrow> int \<Rightarrow> int \<Rightarrow> graph" where
  "gp_SetVertexPertinentBicompList g v x =
     g\<lparr>V := (V g)(v := (V g v)\<lparr>pertinentBicompList := x\<rparr>)\<rparr>"

definition gp_GetVertexFwdArcList :: "graph \<Rightarrow> int \<Rightarrow> int" where
  "gp_GetVertexFwdArcList g v = fwdArcList (V g v)"

definition gp_SetVertexFwdArcList :: "graph \<Rightarrow> int \<Rightarrow> int \<Rightarrow> graph" where
  "gp_SetVertexFwdArcList g v x = g\<lparr>V := (V g)(v := (V g v)\<lparr>fwdArcList := x\<rparr>)\<rparr>"

definition gp_GetVertexPertinentAdjacencyInfo :: "graph \<Rightarrow> int \<Rightarrow> int" where
  "gp_GetVertexPertinentAdjacencyInfo g v = pertinentAdjacencyInfo (V g v)"

definition gp_SetVertexPertinentAdjacencyInfo :: "graph \<Rightarrow> int \<Rightarrow> int \<Rightarrow> graph" where
  "gp_SetVertexPertinentAdjacencyInfo g v x =
     g\<lparr>V := (V g)(v := (V g v)\<lparr>pertinentAdjacencyInfo := x\<rparr>)\<rparr>"

definition gp_GetFirstArc :: "graph \<Rightarrow> int \<Rightarrow> int" where
  "gp_GetFirstArc g v = firstArc (V g v)"

definition gp_SetFirstArc :: "graph \<Rightarrow> int \<Rightarrow> int \<Rightarrow> graph" where
  "gp_SetFirstArc g v x = g\<lparr>V := (V g)(v := (V g v)\<lparr>firstArc := x\<rparr>)\<rparr>"

definition gp_GetLastArc :: "graph \<Rightarrow> int \<Rightarrow> int" where
  "gp_GetLastArc g v = lastArc (V g v)"

definition gp_SetLastArc :: "graph \<Rightarrow> int \<Rightarrow> int \<Rightarrow> graph" where
  "gp_SetLastArc g v x = g\<lparr>V := (V g)(v := (V g v)\<lparr>lastArc := x\<rparr>)\<rparr>"

text \<open>
  A link is 0 or 1. At a vertex, link 0 is the first arc and link 1 the last arc; the
  external-face pair is indexed the same way. The C indexes a two-element array; for a
  link outside \<open>{0, 1}\<close>, which C gives no meaning, the model takes the second element.
\<close>

definition gp_GetArc :: "graph \<Rightarrow> int \<Rightarrow> int \<Rightarrow> int" where
  "gp_GetArc g v link = (if link = 0 then gp_GetFirstArc g v else gp_GetLastArc g v)"

definition gp_SetArc :: "graph \<Rightarrow> int \<Rightarrow> int \<Rightarrow> int \<Rightarrow> graph" where
  "gp_SetArc g v link x = (if link = 0 then gp_SetFirstArc g v x else gp_SetLastArc g v x)"

definition gp_GetExtFaceVertex :: "graph \<Rightarrow> int \<Rightarrow> int \<Rightarrow> int" where
  "gp_GetExtFaceVertex g v link = (if link = 0 then extFace0 (V g v) else extFace1 (V g v))"

definition gp_SetExtFaceVertex :: "graph \<Rightarrow> int \<Rightarrow> int \<Rightarrow> int \<Rightarrow> graph" where
  "gp_SetExtFaceVertex g v link x =
     (if link = 0 then g\<lparr>V := (V g)(v := (V g v)\<lparr>extFace0 := x\<rparr>)\<rparr>
      else g\<lparr>V := (V g)(v := (V g v)\<lparr>extFace1 := x\<rparr>)\<rparr>)"

definition gp_GetExtFaceInversionFlag :: "graph \<Rightarrow> int \<Rightarrow> bool" where
  "gp_GetExtFaceInversionFlag g v = extFaceInversionFlag (V g v)"

definition gp_SetExtFaceInversionFlag :: "graph \<Rightarrow> int \<Rightarrow> graph" where
  "gp_SetExtFaceInversionFlag g v =
     g\<lparr>V := (V g)(v := (V g v)\<lparr>extFaceInversionFlag := True\<rparr>)\<rparr>"

definition gp_ClearExtFaceInversionFlag :: "graph \<Rightarrow> int \<Rightarrow> graph" where
  "gp_ClearExtFaceInversionFlag g v =
     g\<lparr>V := (V g)(v := (V g v)\<lparr>extFaceInversionFlag := False\<rparr>)\<rparr>"

subsection \<open>Arc accessors\<close>

text \<open>
  In an arc, link 0 is the successor and link 1 the predecessor in the adjacency list
  (\<^verbatim>\<open>_EmbedBackEdgeToDescendant\<close> makes the new first arc's link 1 the end mark). An
  adjacency list ends, in both directions, at an end mark, which is not an arc; twin arcs
  sit at adjacent indices.
\<close>

definition gp_IsArc :: "graph \<Rightarrow> int \<Rightarrow> bool" where
  "gp_IsArc g e = (e \<noteq> NIL)"

definition gp_AdjacencyListEndMark :: "int \<Rightarrow> int" where
  "gp_AdjacencyListEndMark v = NIL"

definition gp_GetTwinArc :: "graph \<Rightarrow> int \<Rightarrow> int" where
  "gp_GetTwinArc g e = e XOR 1"

definition gp_GetNeighbor :: "graph \<Rightarrow> int \<Rightarrow> int" where
  "gp_GetNeighbor g e = neighbor (E g e)"

definition gp_SetNeighbor :: "graph \<Rightarrow> int \<Rightarrow> int \<Rightarrow> graph" where
  "gp_SetNeighbor g e x = g\<lparr>E := (E g)(e := (E g e)\<lparr>neighbor := x\<rparr>)\<rparr>"

definition gp_GetNextArc :: "graph \<Rightarrow> int \<Rightarrow> int" where
  "gp_GetNextArc g e = nextArc (E g e)"

definition gp_SetNextArc :: "graph \<Rightarrow> int \<Rightarrow> int \<Rightarrow> graph" where
  "gp_SetNextArc g e x = g\<lparr>E := (E g)(e := (E g e)\<lparr>nextArc := x\<rparr>)\<rparr>"

definition gp_GetPrevArc :: "graph \<Rightarrow> int \<Rightarrow> int" where
  "gp_GetPrevArc g e = prevArc (E g e)"

definition gp_SetPrevArc :: "graph \<Rightarrow> int \<Rightarrow> int \<Rightarrow> graph" where
  "gp_SetPrevArc g e x = g\<lparr>E := (E g)(e := (E g e)\<lparr>prevArc := x\<rparr>)\<rparr>"

definition gp_GetAdjacentArc :: "graph \<Rightarrow> int \<Rightarrow> int \<Rightarrow> int" where
  "gp_GetAdjacentArc g e link = (if link = 0 then gp_GetNextArc g e else gp_GetPrevArc g e)"

definition gp_SetAdjacentArc :: "graph \<Rightarrow> int \<Rightarrow> int \<Rightarrow> int \<Rightarrow> graph" where
  "gp_SetAdjacentArc g e link x =
     (if link = 0 then gp_SetNextArc g e x else gp_SetPrevArc g e x)"

definition gp_GetEdgeType :: "graph \<Rightarrow> int \<Rightarrow> edgeType" where
  "gp_GetEdgeType g e = etype (E g e)"

definition gp_SetEdgeType :: "graph \<Rightarrow> int \<Rightarrow> edgeType \<Rightarrow> graph" where
  "gp_SetEdgeType g e t = g\<lparr>E := (E g)(e := (E g e)\<lparr>etype := t\<rparr>)\<rparr>"

definition gp_GetEdgeFlagInverted :: "graph \<Rightarrow> int \<Rightarrow> bool" where
  "gp_GetEdgeFlagInverted g e = inverted (E g e)"

definition gp_XorEdgeFlagInverted :: "graph \<Rightarrow> int \<Rightarrow> graph" where
  "gp_XorEdgeFlagInverted g e = g\<lparr>E := (E g)(e := (E g e)\<lparr>inverted := \<not> inverted (E g e)\<rparr>)\<rparr>"

definition gp_GetArcCapacity :: "graph \<Rightarrow> int" where
  "gp_GetArcCapacity g = arcCapacity g"

section \<open>Vertex inversion\<close>

text \<open>
  \<^verbatim>\<open>_InvertVertex\<close>: the loop swaps the two links of every arc met from the first arc
  along the successor links, then the vertex's first and last arc and its two
  external-face links are swapped.
\<close>

partial_function (option) InvertVertex_arcs :: "graph \<Rightarrow> int \<Rightarrow> graph option" where
  "InvertVertex_arcs g J =
     (if gp_IsArc g J then
        (let temp = gp_GetNextArc g J;
             g1 = gp_SetNextArc g J (gp_GetPrevArc g J);
             g2 = gp_SetPrevArc g1 J temp
         in InvertVertex_arcs g2 temp)
      else Some g)"

definition InvertVertex :: "graph \<Rightarrow> int \<Rightarrow> graph option" where
  "InvertVertex g v =
     do {
       g1 \<leftarrow> InvertVertex_arcs g (gp_GetFirstArc g v);
       let temp = gp_GetFirstArc g1 v;
       let g2 = gp_SetFirstArc g1 v (gp_GetLastArc g1 v);
       let g3 = gp_SetLastArc g2 v temp;
       let temp = gp_GetExtFaceVertex g3 v 0;
       let g4 = gp_SetExtFaceVertex g3 v 0 (gp_GetExtFaceVertex g3 v 1);
       let g5 = gp_SetExtFaceVertex g4 v 1 temp;
       Some g5
     }"


subsection \<open>The integer stack\<close>

text \<open>
  Modelled from the spec: \<^verbatim>\<open>stack.h\<close> is not part of the sources. The reusable integer
  stack is a list with the top at the head and a capacity. \<^verbatim>\<open>sp_Push2(s, a, b)\<close> pushes
  \<open>a\<close> then \<open>b\<close>; \<^verbatim>\<open>sp_Pop2(s, a, b)\<close> pops \<open>b\<close> then \<open>a\<close>. A pop from the empty stack
  has no result. The push macros do not test the capacity.
\<close>

definition sp_ClearStack :: "stack \<Rightarrow> stack" where
  "sp_ClearStack s = s\<lparr>items := []\<rparr>"

definition sp_NonEmpty :: "stack \<Rightarrow> bool" where
  "sp_NonEmpty s = (items s \<noteq> [])"

definition sp_GetCapacity :: "stack \<Rightarrow> int" where
  "sp_GetCapacity s = capacity s"

definition sp_Push :: "stack \<Rightarrow> int \<Rightarrow> stack" where
  "sp_Push s a = s\<lparr>items := a # items s\<rparr>"

definition sp_Push2 :: "stack \<Rightarrow> int \<Rightarrow> int \<Rightarrow> stack" where
  "sp_Push2 s a b = sp_Push (sp_Push s a) b"

definition sp_Pop :: "stack \<Rightarrow> (int \<times> stack) option" where
  "sp_Pop s = (case items s of [] \<Rightarrow> None | a # r \<Rightarrow> Some (a, s\<lparr>items := r\<rparr>))"

definition sp_Pop2 :: "stack \<Rightarrow> (int \<times> int \<times> stack) option" where
  "sp_Pop2 s =
     do {
       (b, s1) \<leftarrow> sp_Pop s;
       (a, s2) \<leftarrow> sp_Pop s1;
       Some (a, b, s2)
     }"

subsection \<open>List collections\<close>

text \<open>
  Modelled from the spec: \<^verbatim>\<open>listcoll.h\<close> is not part of the sources. A list collection
  is an arena of nodes, one per item, holding circular predecessor and successor indices;
  a list is named by its head item, \<open>NIL\<close> for the empty list. \<open>LCAppend\<close> links the
  item in as the predecessor of the head and keeps the head; \<open>LCPrepend\<close> does the same
  and makes the item the head; \<open>LCGetNext\<close> gives \<open>NIL\<close> after the last item;
  \<open>LCDelete\<close> unlinks the item and moves the head on if it was the head.
\<close>

definition LCReset :: "listCollection \<Rightarrow> listCollection" where
  "LCReset lc = (\<lambda>_. \<lparr>lc_prev = NIL, lc_next = NIL\<rparr>)"

definition LCAppend :: "listCollection \<Rightarrow> int \<Rightarrow> int \<Rightarrow> int \<times> listCollection" where
  "LCAppend lc theList theNode =
     (if theList = NIL then
        (theNode, lc(theNode := \<lparr>lc_prev = theNode, lc_next = theNode\<rparr>))
      else
        (let pred = lc_prev (lc theList);
             lc1 = lc(theNode := (lc theNode)\<lparr>lc_next := theList\<rparr>);
             lc2 = lc1(theNode := (lc1 theNode)\<lparr>lc_prev := pred\<rparr>);
             lc3 = lc2(pred := (lc2 pred)\<lparr>lc_next := theNode\<rparr>);
             lc4 = lc3(theList := (lc3 theList)\<lparr>lc_prev := theNode\<rparr>)
         in (theList, lc4)))"

definition LCPrepend :: "listCollection \<Rightarrow> int \<Rightarrow> int \<Rightarrow> int \<times> listCollection" where
  "LCPrepend lc theList theNode =
     (let (h, lc1) = LCAppend lc theList theNode in (lc_prev (lc1 h), lc1))"

definition LCGetNext :: "listCollection \<Rightarrow> int \<Rightarrow> int \<Rightarrow> int" where
  "LCGetNext lc theList theNode =
     (if lc_next (lc theNode) = theList then NIL else lc_next (lc theNode))"

definition LCDelete :: "listCollection \<Rightarrow> int \<Rightarrow> int \<Rightarrow> int \<times> listCollection" where
  "LCDelete lc theList theNode =
     (if lc_next (lc theList) = theList then
        (NIL, lc(theList := \<lparr>lc_prev = NIL, lc_next = NIL\<rparr>))
      else
        (let pred = lc_prev (lc theNode);
             succ = lc_next (lc theNode);
             lc1 = lc(pred := (lc pred)\<lparr>lc_next := succ\<rparr>);
             lc2 = lc1(succ := (lc1 succ)\<lparr>lc_prev := pred\<rparr>);
             lc3 = lc2(theNode := \<lparr>lc_prev = NIL, lc_next = NIL\<rparr>)
         in (if theList = theNode then succ else theList, lc3)))"


section \<open>The function table\<close>

text \<open>
  The embedder reaches some of its routines through \<^verbatim>\<open>theGraph->functions\<close>, so that an
  extension can replace them. The table is a parameter \<open>ft\<close> of every routine that calls
  through it; it holds the entries that \<^verbatim>\<open>graphEmbed.c\<close> calls. An entry that may walk a
  linked structure returns an option, as the core routines do.
  \<^verbatim>\<open>fpHandleBlockedDescendantBicomp\<close> receives \<open>I\<close>, the root vertex, \<open>R\<close> and the
  values of \<open>Rout\<close>, \<open>W\<close> and \<open>WPrevLink\<close>, and gives back its result with the values
  it leaves in these three; \<^verbatim>\<open>fpHandleInactiveVertex\<close> gives back the new \<open>W\<close> and \<open>WPrevLink\<close>.
  \<^verbatim>\<open>gp_SortVertices\<close> is not part of the sources and is taken from the table as well.
\<close>

record graphFunctionTable =
  fpInitVertexRec :: "graph \<Rightarrow> int \<Rightarrow> graph"
  fpSortVertices :: "graph \<Rightarrow> result \<times> graph"
  fpEmbedBackEdgeToDescendant :: "graph \<Rightarrow> int \<Rightarrow> int \<Rightarrow> int \<Rightarrow> int \<Rightarrow> graph"
  fpMergeBicomps :: "graph \<Rightarrow> int \<Rightarrow> int \<Rightarrow> int \<Rightarrow> int \<Rightarrow> (result \<times> graph) option"
  fpHandleInactiveVertex :: "graph \<Rightarrow> int \<Rightarrow> int \<Rightarrow> int \<Rightarrow> result \<times> graph \<times> int \<times> int"
  fpHandleBlockedDescendantBicomp ::
    "graph \<Rightarrow> int \<Rightarrow> int \<Rightarrow> int \<Rightarrow> int \<Rightarrow> int \<Rightarrow> int \<Rightarrow>
       result \<times> graph \<times> int \<times> int \<times> int"
  fpWalkUp :: "graph \<Rightarrow> int \<Rightarrow> int \<Rightarrow> graph option"
  fpWalkDown :: "graph \<Rightarrow> int \<Rightarrow> int \<Rightarrow> (result \<times> graph) option"
  fpHandleBlockedEmbedIteration :: "graph \<Rightarrow> int \<Rightarrow> result \<times> graph"
  fpEmbedPostprocess :: "graph \<Rightarrow> int \<Rightarrow> result \<Rightarrow> (result \<times> graph) option"

section \<open>Embedding a back edge\<close>

text \<open>\<^verbatim>\<open>_EmbedBackEdgeToDescendant\<close>, statement by statement.\<close>

definition EmbedBackEdgeToDescendant :: "graph \<Rightarrow> int \<Rightarrow> int \<Rightarrow> int \<Rightarrow> int \<Rightarrow> graph" where
  "EmbedBackEdgeToDescendant g RootSide RootVertex W WPrevLink =
     (let fwdArc = gp_GetVertexPertinentAdjacencyInfo g W;
          backArc = gp_GetTwinArc g fwdArc;
          parentCopy = gp_GetVertexParent g (RootVertex - N g);
          g1 = (if gp_GetVertexFwdArcList g parentCopy = fwdArc then
                  (let ga = gp_SetVertexFwdArcList g parentCopy (gp_GetNextArc g fwdArc)
                   in if gp_GetVertexFwdArcList ga parentCopy = fwdArc
                      then gp_SetVertexFwdArcList ga parentCopy NIL else ga)
                else g);
          g2 = gp_SetNextArc g1 (gp_GetPrevArc g1 fwdArc) (gp_GetNextArc g1 fwdArc);
          g3 = gp_SetPrevArc g2 (gp_GetNextArc g2 fwdArc) (gp_GetPrevArc g2 fwdArc);
          g4 = gp_SetAdjacentArc g3 fwdArc (1 XOR RootSide) (gp_AdjacencyListEndMark RootVertex);
          g5 = gp_SetAdjacentArc g4 fwdArc RootSide (gp_GetArc g4 RootVertex RootSide);
          g6 = gp_SetAdjacentArc g5 (gp_GetArc g5 RootVertex RootSide) (1 XOR RootSide) fwdArc;
          g7 = gp_SetArc g6 RootVertex RootSide fwdArc;
          g8 = gp_SetAdjacentArc g7 backArc (1 XOR WPrevLink) (gp_AdjacencyListEndMark W);
          g9 = gp_SetAdjacentArc g8 backArc WPrevLink (gp_GetArc g8 W WPrevLink);
          g10 = gp_SetAdjacentArc g9 (gp_GetArc g9 W WPrevLink) (1 XOR WPrevLink) backArc;
          g11 = gp_SetArc g10 W WPrevLink backArc;
          g12 = gp_SetNeighbor g11 backArc RootVertex;
          g13 = gp_SetExtFaceVertex g12 RootVertex RootSide W
      in gp_SetExtFaceVertex g13 W WPrevLink RootVertex)"

section \<open>Merging bicomps\<close>

text \<open>
  \<^verbatim>\<open>_MergeVertex\<close>: the loop redirects to \<open>W\<close> the twin of every arc of \<open>R\<close>; then the
  adjacency list of \<open>R\<close> is spliced into that of \<open>W\<close> and the record of \<open>R\<close> is
  reinitialised through the table entry \<^verbatim>\<open>fpInitVertexRec\<close>, passed as \<open>initVertexRec\<close>.
\<close>

partial_function (option) MergeVertex_redirect :: "graph \<Rightarrow> int \<Rightarrow> int \<Rightarrow> graph option" where
  "MergeVertex_redirect g J W =
     (if gp_IsArc g J then
        (let JTwin = gp_GetTwinArc g J;
             g1 = gp_SetNeighbor g JTwin W
         in MergeVertex_redirect g1 (gp_GetNextArc g1 J) W)
      else Some g)"

definition MergeVertex_splice :: "graph \<Rightarrow> int \<Rightarrow> int \<Rightarrow> int \<Rightarrow> graph" where
  "MergeVertex_splice g W WPrevLink R =
     (let e_w = gp_GetArc g W WPrevLink;
          e_r = gp_GetArc g R (1 XOR WPrevLink);
          e_ext = gp_GetArc g R WPrevLink
      in if gp_IsArc g e_w then
           (let g1 = gp_SetAdjacentArc g e_w (1 XOR WPrevLink) e_r;
                g2 = gp_SetAdjacentArc g1 e_r WPrevLink e_w;
                g3 = gp_SetArc g2 W WPrevLink e_ext
            in gp_SetAdjacentArc g3 e_ext (1 XOR WPrevLink) (gp_AdjacencyListEndMark W))
         else
           (let g1 = gp_SetArc g W (1 XOR WPrevLink) e_r;
                g2 = gp_SetAdjacentArc g1 e_r WPrevLink (gp_AdjacencyListEndMark W);
                g3 = gp_SetArc g2 W WPrevLink e_ext
            in gp_SetAdjacentArc g3 e_ext (1 XOR WPrevLink) (gp_AdjacencyListEndMark W)))"

definition MergeVertex ::
  "(graph \<Rightarrow> int \<Rightarrow> graph) \<Rightarrow> graph \<Rightarrow> int \<Rightarrow> int \<Rightarrow> int \<Rightarrow> graph option" where
  "MergeVertex initVertexRec g W WPrevLink R =
     do {
       g1 \<leftarrow> MergeVertex_redirect g (gp_GetFirstArc g R) W;
       Some (initVertexRec (MergeVertex_splice g1 W WPrevLink R) R)
     }"

text \<open>
  \<^verbatim>\<open>_MergeBicomps\<close>. One pass of its loop pops \<open>(R, Rout)\<close> and \<open>(Z, ZPrevLink)\<close> and
  runs four steps: the external-face links at \<open>Z\<close> are updated; the bicomp rooted at \<open>R\<close>
  is flipped if \<open>ZPrevLink = Rout\<close>; the child \<open>R - N\<close> leaves the two lists of \<open>Z\<close>;
  \<open>R\<close> is merged into \<open>Z\<close>.
\<close>

definition MergeBicomps_extFace :: "graph \<Rightarrow> int \<Rightarrow> int \<Rightarrow> int \<Rightarrow> int \<Rightarrow> graph" where
  "MergeBicomps_extFace g R Rout Z ZPrevLink =
     (let extFaceVertex = gp_GetExtFaceVertex g R (1 XOR Rout);
          g1 = gp_SetExtFaceVertex g Z ZPrevLink extFaceVertex
      in if gp_GetExtFaceVertex g1 extFaceVertex 0 = gp_GetExtFaceVertex g1 extFaceVertex 1
         then gp_SetExtFaceVertex g1 extFaceVertex
                (Rout XOR (if gp_GetExtFaceInversionFlag g1 extFaceVertex then 1 else 0)) Z
         else gp_SetExtFaceVertex g1 extFaceVertex
                (if gp_GetExtFaceVertex g1 extFaceVertex 0 = R then 0 else 1) Z)"

partial_function (option) MergeBicomps_xorChild :: "graph \<Rightarrow> int \<Rightarrow> graph option" where
  "MergeBicomps_xorChild g J =
     (if gp_IsArc g J then
        (if gp_GetEdgeType g J = EDGE_TYPE_CHILD then Some (gp_XorEdgeFlagInverted g J)
         else MergeBicomps_xorChild g (gp_GetNextArc g J))
      else Some g)"

definition MergeBicomps_flip :: "graph \<Rightarrow> int \<Rightarrow> int \<Rightarrow> int \<Rightarrow> (int \<times> graph) option" where
  "MergeBicomps_flip g R Rout ZPrevLink =
     (if ZPrevLink = Rout then
        do {
          let Rout' = 1 XOR ZPrevLink;
          g1 \<leftarrow> (if gp_GetFirstArc g R \<noteq> gp_GetLastArc g R then InvertVertex g R else Some g);
          g2 \<leftarrow> MergeBicomps_xorChild g1 (gp_GetFirstArc g1 R);
          Some (Rout', g2)
        }
      else Some (Rout, g))"

definition MergeBicomps_unlist :: "graph \<Rightarrow> int \<Rightarrow> int \<Rightarrow> graph" where
  "MergeBicomps_unlist g R Z =
     (let RootID_DFSChild = R - N g;
          (theList, lc) = LCDelete (BicompLists g) (gp_GetVertexPertinentBicompList g Z)
                            RootID_DFSChild;
          g1 = gp_SetVertexPertinentBicompList (g\<lparr>BicompLists := lc\<rparr>) Z theList;
          (theList, lc) = LCDelete (DFSChildLists g1) (gp_GetVertexSeparatedDFSChildList g1 Z)
                            RootID_DFSChild
      in gp_SetVertexSeparatedDFSChildList (g1\<lparr>DFSChildLists := lc\<rparr>) Z theList)"

partial_function (option) MergeBicomps ::
  "(graph \<Rightarrow> int \<Rightarrow> graph) \<Rightarrow> graph \<Rightarrow> int \<Rightarrow> int \<Rightarrow> int \<Rightarrow> int \<Rightarrow> (result \<times> graph) option" where
  "MergeBicomps initVertexRec g I RootVertex W WPrevLink =
     (if sp_NonEmpty (theStack g) then
        do {
          (R, Rout, s1) \<leftarrow> sp_Pop2 (theStack g);
          (Z, ZPrevLink, s2) \<leftarrow> sp_Pop2 s1;
          let g1 = MergeBicomps_extFace (g\<lparr>theStack := s2\<rparr>) R Rout Z ZPrevLink;
          (Rout', g2) \<leftarrow> MergeBicomps_flip g1 R Rout ZPrevLink;
          g3 \<leftarrow> MergeVertex initVertexRec (MergeBicomps_unlist g2 R Z) Z ZPrevLink R;
          MergeBicomps initVertexRec g3 I RootVertex W WPrevLink
        }
      else Some (OK, g))"


section \<open>Walkup\<close>

text \<open>
  \<^verbatim>\<open>_WalkUp\<close>. \<open>WalkUp_next\<close> is the three-way test at the head of the loop body: it
  gives \<open>None\<close> where the C breaks out of the loop, and otherwise the values of
  \<open>nextZig\<close>, \<open>nextZag\<close> and \<open>R\<close>. \<open>WalkUp_record\<close> is the branch taken when a bicomp
  root was found: it puts the root's DFS child on the pertinent bicomp list of the parent
  copy and gives back the parent copy.
\<close>

definition WalkUp_next ::
  "graph \<Rightarrow> int \<Rightarrow> int \<Rightarrow> int \<Rightarrow> int \<Rightarrow> int \<Rightarrow> (int \<times> int \<times> int) option" where
  "WalkUp_next g I Zig Zag ZigPrevLink ZagPrevLink =
     (let nextZig = gp_GetExtFaceVertex g Zig (1 XOR ZigPrevLink) in
      if nextZig \<ge> N g then
        (if gp_GetVertexVisitedInfo g Zig = I then None
         else
           (let R = nextZig;
                nextZag = gp_GetExtFaceVertex g R (if gp_GetExtFaceVertex g R 0 = Zig then 1 else 0)
            in if gp_GetVertexVisitedInfo g nextZag = I then None
               else Some (nextZig, nextZag, R)))
      else
        (let nextZag = gp_GetExtFaceVertex g Zag (1 XOR ZagPrevLink) in
         if nextZag \<ge> N g then
           (if gp_GetVertexVisitedInfo g Zag = I then None
            else
              (let R = nextZag;
                   nextZig = gp_GetExtFaceVertex g R
                               (if gp_GetExtFaceVertex g R 0 = Zag then 1 else 0)
               in if gp_GetVertexVisitedInfo g nextZig = I then None
                  else Some (nextZig, nextZag, R)))
         else
           (if gp_GetVertexVisitedInfo g Zig = I then None
            else if gp_GetVertexVisitedInfo g Zag = I then None
            else Some (nextZig, nextZag, NIL))))"

definition WalkUp_record :: "graph \<Rightarrow> int \<Rightarrow> int \<Rightarrow> graph \<times> int" where
  "WalkUp_record g I R =
     (let RootID_DFSChild = R - N g;
          ParentCopy = gp_GetVertexParent g RootID_DFSChild;
          BicompList = gp_GetVertexPertinentBicompList g ParentCopy;
          (BicompList, lc) =
             (if gp_GetVertexLowpoint g RootID_DFSChild < I
              then LCAppend (BicompLists g) BicompList RootID_DFSChild
              else LCPrepend (BicompLists g) BicompList RootID_DFSChild)
      in (gp_SetVertexPertinentBicompList (g\<lparr>BicompLists := lc\<rparr>) ParentCopy BicompList,
          ParentCopy))"

partial_function (option) WalkUp_loop ::
  "graph \<Rightarrow> int \<Rightarrow> int \<Rightarrow> int \<Rightarrow> int \<Rightarrow> int \<Rightarrow> graph option" where
  "WalkUp_loop g I Zig Zag ZigPrevLink ZagPrevLink =
     (if Zig \<noteq> I then
        (case WalkUp_next g I Zig Zag ZigPrevLink ZagPrevLink of
           None \<Rightarrow> Some g
         | Some (nextZig, nextZag, R) \<Rightarrow>
             (let g1 = gp_SetVertexVisitedInfo g Zig I;
                  g2 = gp_SetVertexVisitedInfo g1 Zag I
              in if R = NIL then
                   WalkUp_loop g2 I nextZig nextZag
                     (if gp_GetExtFaceVertex g2 nextZig 0 = Zig then 0 else 1)
                     (if gp_GetExtFaceVertex g2 nextZag 0 = Zag then 0 else 1)
                 else
                   (case WalkUp_record g2 I R of
                      (g3, ParentCopy) \<Rightarrow> WalkUp_loop g3 I ParentCopy ParentCopy 1 0)))
      else Some g)"

definition WalkUp :: "graph \<Rightarrow> int \<Rightarrow> int \<Rightarrow> graph option" where
  "WalkUp g I J =
     (let W = gp_GetNeighbor g J;
          g1 = gp_SetVertexPertinentAdjacencyInfo g W J
      in WalkUp_loop g1 I W W 1 0)"

section \<open>Walkdown\<close>

text \<open>
  Modelled from the spec: the macros \<^verbatim>\<open>PERTINENT\<close> and \<^verbatim>\<open>_VertexActiveStatus\<close> of
  \<^verbatim>\<open>graph.h\<close> are not part of the sources. They follow the activity classification of
  the spec (section 4.5): a vertex is externally active in step \<open>I\<close> if its least
  ancestor is below \<open>I\<close> or the first child of its separated DFS child list has a lowpoint
  below \<open>I\<close>; it is internally active if it is pertinent and not externally active; it is
  inactive otherwise.
\<close>

definition PERTINENT :: "graph \<Rightarrow> int \<Rightarrow> bool" where
  "PERTINENT g v =
     (gp_GetVertexPertinentAdjacencyInfo g v \<noteq> NIL \<or> gp_GetVertexPertinentBicompList g v \<noteq> NIL)"

definition EXTERNALLYACTIVE :: "graph \<Rightarrow> int \<Rightarrow> int \<Rightarrow> bool" where
  "EXTERNALLYACTIVE g v I =
     (gp_GetVertexLeastAncestor g v < I \<or>
      (gp_GetVertexSeparatedDFSChildList g v \<noteq> NIL \<and>
       gp_GetVertexLowpoint g (gp_GetVertexSeparatedDFSChildList g v) < I))"

definition VertexActiveStatus :: "graph \<Rightarrow> int \<Rightarrow> int \<Rightarrow> activeStatus" where
  "VertexActiveStatus g v I =
     (if EXTERNALLYACTIVE g v I then VAS_EXTERNAL
      else if PERTINENT g v then VAS_INTERNAL
      else VAS_INACTIVE)"

definition GetPertinentChildBicomp :: "graph \<Rightarrow> int \<Rightarrow> int" where
  "GetPertinentChildBicomp g W =
     (if gp_GetVertexPertinentBicompList g W = NIL then NIL
      else gp_GetVertexPertinentBicompList g W + N g)"

text \<open>
  \<^verbatim>\<open>_HandleBlockedDescendantBicomp\<close> and \<^verbatim>\<open>_HandleInactiveVertex\<close>, the core entries of
  the table. The first leaves \<open>Rout\<close>, \<open>W\<close> and \<open>WPrevLink\<close> as they are.
\<close>

definition HandleBlockedDescendantBicomp ::
  "graph \<Rightarrow> int \<Rightarrow> int \<Rightarrow> int \<Rightarrow> int \<Rightarrow> int \<Rightarrow> int \<Rightarrow> result \<times> graph \<times> int \<times> int \<times> int" where
  "HandleBlockedDescendantBicomp g I RootVertex R Rout W WPrevLink =
     (NONEMBEDDABLE, g\<lparr>theStack := sp_Push2 (theStack g) R 0\<rparr>, Rout, W, WPrevLink)"

definition HandleInactiveVertex ::
  "graph \<Rightarrow> int \<Rightarrow> int \<Rightarrow> int \<Rightarrow> result \<times> graph \<times> int \<times> int" where
  "HandleInactiveVertex g BicompRoot W WPrevLink =
     (let X = gp_GetExtFaceVertex g W (1 XOR WPrevLink);
          WPrevLink' = (if gp_GetExtFaceVertex g X 0 = W then 0 else 1)
      in (OK, g, X, WPrevLink'))"


text \<open>
  \<^verbatim>\<open>_WalkDown\<close>. The inner loop visits a vertex \<open>W\<close> in three steps.
  \<open>WalkDown_embed\<close> is the first: if \<open>W\<close> is marked, the bicomps on the stack are merged,
  the back edge is embedded and the mark is cleared. \<open>WalkDown_descend\<close> is the second,
  taken when \<open>W\<close> has a pertinent child bicomp. A value \<open>Inl (r, g)\<close> stands for a
  \<^verbatim>\<open>return r\<close> out of the whole routine. The C declares \<open>Rout\<close> without a value and
  assigns it in the second step; the model starts it at \<open>NIL\<close>.
\<close>

definition WalkDown_embed ::
  "graphFunctionTable \<Rightarrow> graph \<Rightarrow> int \<Rightarrow> int \<Rightarrow> int \<Rightarrow> int \<Rightarrow> int \<Rightarrow>
     ((result \<times> graph) + graph) option" where
  "WalkDown_embed ft g I RootVertex RootSide W WPrevLink =
     (if gp_GetVertexPertinentAdjacencyInfo g W \<noteq> NIL then
        do {
          (RetVal, g1) \<leftarrow> (if sp_NonEmpty (theStack g)
                           then fpMergeBicomps ft g I RootVertex W WPrevLink
                           else Some (OK, g));
          if RetVal \<noteq> OK then Some (Inl (RetVal, g1))
          else
            (let g2 = fpEmbedBackEdgeToDescendant ft g1 RootSide RootVertex W WPrevLink
             in Some (Inr (gp_SetVertexPertinentAdjacencyInfo g2 W NIL)))
        }
      else Some (Inr g))"

definition WalkDown_descend ::
  "graphFunctionTable \<Rightarrow> graph \<Rightarrow> int \<Rightarrow> int \<Rightarrow> int \<Rightarrow> int \<Rightarrow> int \<Rightarrow>
     (result \<times> graph) + (int \<times> int \<times> int \<times> graph)" where
  "WalkDown_descend ft g I RootVertex W WPrevLink Rout =
     (let g1 = g\<lparr>theStack := sp_Push2 (theStack g) W WPrevLink\<rparr>;
          R = GetPertinentChildBicomp g1 W;
          X = gp_GetExtFaceVertex g1 R 0;
          XPrevLink = (if gp_GetExtFaceVertex g1 X 1 = R then 1 else 0);
          Y = gp_GetExtFaceVertex g1 R 1;
          YPrevLink = (if gp_GetExtFaceVertex g1 Y 0 = R then 0 else 1);
          (XPrevLink, YPrevLink) =
             (if X = Y \<and> gp_GetExtFaceInversionFlag g1 X then (0, 1) else (XPrevLink, YPrevLink));
          (RetVal, g2, Rout, W, WPrevLink) =
             (if VertexActiveStatus g1 X I = VAS_INTERNAL then (OK, g1, 0, X, XPrevLink)
              else if VertexActiveStatus g1 Y I = VAS_INTERNAL then (OK, g1, 1, Y, YPrevLink)
              else if PERTINENT g1 X then (OK, g1, 0, X, XPrevLink)
              else if PERTINENT g1 Y then (OK, g1, 1, Y, YPrevLink)
              else fpHandleBlockedDescendantBicomp ft g1 I RootVertex R Rout W WPrevLink)
      in if RetVal \<noteq> OK then Inl (RetVal, g2)
         else Inr (W, WPrevLink, Rout, g2\<lparr>theStack := sp_Push2 (theStack g2) R Rout\<rparr>))"

partial_function (option) WalkDown_loop ::
  "graphFunctionTable \<Rightarrow> graph \<Rightarrow> int \<Rightarrow> int \<Rightarrow> int \<Rightarrow> int \<Rightarrow> int \<Rightarrow> int \<Rightarrow>
     ((result \<times> graph) + (int \<times> int \<times> int \<times> graph)) option" where
  "WalkDown_loop ft g I RootVertex RootSide W WPrevLink Rout =
     (if W \<noteq> RootVertex then
        do {
          r \<leftarrow> WalkDown_embed ft g I RootVertex RootSide W WPrevLink;
          case r of
            Inl ret \<Rightarrow> Some (Inl ret)
          | Inr g1 \<Rightarrow>
              if gp_GetVertexPertinentBicompList g1 W \<noteq> NIL then
                (case WalkDown_descend ft g1 I RootVertex W WPrevLink Rout of
                   Inl ret \<Rightarrow> Some (Inl ret)
                 | Inr (W', WPrevLink', Rout', g2) \<Rightarrow>
                     WalkDown_loop ft g2 I RootVertex RootSide W' WPrevLink' Rout')
              else if VertexActiveStatus g1 W I = VAS_INACTIVE then
                (case fpHandleInactiveVertex ft g1 RootVertex W WPrevLink of
                   (RetVal, g2, W', WPrevLink') \<Rightarrow>
                     if RetVal \<noteq> OK then Some (Inl (NOTOK, g2))
                     else WalkDown_loop ft g2 I RootVertex RootSide W' WPrevLink' Rout)
              else Some (Inr (W, WPrevLink, Rout, g1))
        }
      else Some (Inr (W, WPrevLink, Rout, g)))"

text \<open>
  \<open>WalkDown_shortCircuit\<close> is what follows the inner loop for one side: the two
  external-face links are set and the inversion flag of \<open>W\<close> is set or cleared.
  \<open>WalkDown_entryLink\<close> is the link by which the first vertex \<open>W\<close> of a side is
  entered. \<open>WalkDown_side\<close> is one pass of the outer loop; it gives back the vertex \<open>W\<close>
  at which the side ended.
\<close>

definition WalkDown_shortCircuit :: "graph \<Rightarrow> int \<Rightarrow> int \<Rightarrow> int \<Rightarrow> int \<Rightarrow> graph" where
  "WalkDown_shortCircuit g RootVertex RootSide W WPrevLink =
     (let g1 = gp_SetExtFaceVertex g RootVertex RootSide W;
          g2 = gp_SetExtFaceVertex g1 W WPrevLink RootVertex
      in if gp_GetExtFaceVertex g2 W 0 = gp_GetExtFaceVertex g2 W 1 \<and> WPrevLink = RootSide
         then gp_SetExtFaceInversionFlag g2 W
         else gp_ClearExtFaceInversionFlag g2 W)"

definition WalkDown_entryLink :: "graph \<Rightarrow> int \<Rightarrow> int \<Rightarrow> int \<Rightarrow> int" where
  "WalkDown_entryLink g RootVertex RootSide W =
     (if gp_GetExtFaceVertex g W 0 = gp_GetExtFaceVertex g W 1 then 1 XOR RootSide
      else if gp_GetExtFaceVertex g W 0 = RootVertex then 0 else 1)"

definition WalkDown_side ::
  "graphFunctionTable \<Rightarrow> graph \<Rightarrow> int \<Rightarrow> int \<Rightarrow> int \<Rightarrow> int \<Rightarrow>
     ((result \<times> graph) + (int \<times> int \<times> graph)) option" where
  "WalkDown_side ft g I RootVertex RootSide Rout =
     (let W = gp_GetExtFaceVertex g RootVertex RootSide;
          WPrevLink = WalkDown_entryLink g RootVertex RootSide W
      in if gp_GetExtFaceVertex g W 0 \<noteq> gp_GetExtFaceVertex g W 1 \<and>
            gp_GetExtFaceVertex g W WPrevLink \<noteq> RootVertex
         then Some (Inl (NOTOK, g))
         else
           do {
             r \<leftarrow> WalkDown_loop ft g I RootVertex RootSide W WPrevLink Rout;
             case r of
               Inl ret \<Rightarrow> Some (Inl ret)
             | Inr (W', WPrevLink', Rout', g1) \<Rightarrow>
                 Some (Inr (W', Rout', WalkDown_shortCircuit g1 RootVertex RootSide W' WPrevLink'))
           })"

definition WalkDown ::
  "graphFunctionTable \<Rightarrow> graph \<Rightarrow> int \<Rightarrow> int \<Rightarrow> (result \<times> graph) option" where
  "WalkDown ft g I RootVertex =
     do {
       r0 \<leftarrow> WalkDown_side ft (g\<lparr>theStack := sp_ClearStack (theStack g)\<rparr>) I RootVertex 0 NIL;
       case r0 of
         Inl ret \<Rightarrow> Some ret
       | Inr (W, Rout, g1) \<Rightarrow>
           if W = RootVertex then Some (OK, g1)
           else
             do {
               r1 \<leftarrow> WalkDown_side ft g1 I RootVertex 1 Rout;
               case r1 of
                 Inl ret \<Rightarrow> Some ret
               | Inr (W', Rout', g2) \<Rightarrow> Some (OK, g2)
             }
     }"


section \<open>Initialisation of the embedder\<close>

text \<open>
  Modelled from the spec: \<^verbatim>\<open>_ClearVertexVisitedFlags\<close> is imported by \<^verbatim>\<open>graphEmbed.c\<close>
  and not part of the sources. It clears the \<open>visited\<close> flag of the primary vertices,
  and of the virtual vertices too if its second argument is set.
\<close>

definition ClearVertexVisitedFlags :: "graph \<Rightarrow> bool \<Rightarrow> graph" where
  "ClearVertexVisitedFlags g includeVirtualVertices =
     g\<lparr>V := (\<lambda>v. if 0 \<le> v \<and> v < (if includeVirtualVertices then 2 * N g else N g)
                   then (V g v)\<lparr>visited := False\<rparr> else V g v)\<rparr>"

definition gp_SortVertices :: "graphFunctionTable \<Rightarrow> graph \<Rightarrow> result \<times> graph" where
  "gp_SortVertices ft g = fpSortVertices ft g"

text \<open>
  \<^verbatim>\<open>_EmbeddingInitialize\<close>, the depth-first search. \<open>DFS_number\<close> is the code under
  (1), (2), (3) and (7) for a vertex \<open>u\<close> popped unvisited; it hands out the index
  \<open>DFI\<close>. \<open>DFS_backArc\<close> is the code under (2), (4) and (5) for an arc \<open>J\<close> of \<open>u\<close> that
  leads to a visited vertex and is not the arc to the parent. \<open>DFS_scan\<close> is the loop over
  the arcs of \<open>u\<close>, \<open>DFS_loop\<close> the loop that empties the stack, and \<open>DFS_components\<close>
  the outer loop, which counts \<open>I\<close> up until \<open>DFI\<close> has reached \<open>n\<close>, the number of
  vertices read at the start.
\<close>

definition DFS_number :: "graph \<Rightarrow> int \<Rightarrow> int \<Rightarrow> int \<Rightarrow> int \<Rightarrow> int \<Rightarrow> graph" where
  "DFS_number g n u uparent e DFI =
     (let g1 = gp_SetVertexVisited g u;
          g2 = gp_SetVertexIndex g1 u DFI;
          g3 = gp_SetVertexParent g2 u uparent
      in if e \<noteq> NIL then
           (let g4 = gp_SetEdgeType g3 e EDGE_TYPE_CHILD;
                g5 = gp_SetEdgeType g4 (gp_GetTwinArc g4 e) EDGE_TYPE_PARENT;
                (theList, lc) = LCAppend (sortedDFSChildLists g5)
                                  (gp_GetVertexSortedDFSChildList g5 uparent)
                                  (gp_GetVertexIndex g5 u);
                g6 = gp_SetVertexSortedDFSChildList (g5\<lparr>sortedDFSChildLists := lc\<rparr>)
                       uparent theList;
                R = gp_GetVertexIndex g6 u + n;
                g7 = gp_SetFirstArc g6 R e
            in gp_SetLastArc g7 R e)
         else g3)"

definition DFS_backArc :: "graph \<Rightarrow> int \<Rightarrow> int \<Rightarrow> graph" where
  "DFS_backArc g u J =
     (let g1 = gp_SetEdgeType g J EDGE_TYPE_BACK;
          JTwin = gp_GetTwinArc g1 J;
          g2 = gp_SetEdgeType g1 JTwin EDGE_TYPE_FORWARD;
          uneighbor = gp_GetNeighbor g2 J;
          JPrev = gp_GetPrevArc g2 JTwin;
          JNext = gp_GetNextArc g2 JTwin;
          g3 = (if gp_IsArc g2 JPrev then gp_SetNextArc g2 JPrev JNext
                else gp_SetFirstArc g2 uneighbor JNext);
          g4 = (if gp_IsArc g3 JNext then gp_SetPrevArc g3 JNext JPrev
                else gp_SetLastArc g3 uneighbor JPrev);
          e = gp_GetVertexFwdArcList g4 uneighbor;
          g5 = (if gp_IsArc g4 e then
                  (let JPrev = gp_GetPrevArc g4 e;
                       ga = gp_SetPrevArc g4 JTwin JPrev;
                       gb = gp_SetNextArc ga JTwin e;
                       gc = gp_SetPrevArc gb e JTwin
                   in gp_SetNextArc gc JPrev JTwin)
                else
                  (let ga = gp_SetVertexFwdArcList g4 uneighbor JTwin;
                       gb = gp_SetPrevArc ga JTwin JTwin
                   in gp_SetNextArc gb JTwin JTwin));
          uneighbor = gp_GetVertexIndex g5 uneighbor
      in if uneighbor < gp_GetVertexLeastAncestor g5 u
         then gp_SetVertexLeastAncestor g5 u uneighbor else g5)"

partial_function (option) DFS_scan :: "graph \<Rightarrow> int \<Rightarrow> int \<Rightarrow> graph option" where
  "DFS_scan g u J =
     (if gp_IsArc g J then
        (let g1 = (if \<not> gp_GetVertexVisited g (gp_GetNeighbor g J)
                   then g\<lparr>theStack := sp_Push2 (theStack g) u J\<rparr>
                   else if gp_GetEdgeType g J \<noteq> EDGE_TYPE_PARENT then DFS_backArc g u J
                   else g)
         in DFS_scan g1 u (gp_GetNextArc g1 J))
      else Some g)"

partial_function (option) DFS_loop ::
  "graph \<Rightarrow> int \<Rightarrow> int \<Rightarrow> int \<Rightarrow> (graph \<times> int) option" where
  "DFS_loop g n I DFI =
     (if sp_NonEmpty (theStack g) then
        do {
          (uparent, e, s1) \<leftarrow> sp_Pop2 (theStack g);
          let g1 = g\<lparr>theStack := s1\<rparr>;
          let u = (if uparent = NIL then I else gp_GetNeighbor g1 e);
          if \<not> gp_GetVertexVisited g1 u then
            do {
              let g2 = DFS_number g1 n u uparent e DFI;
              g3 \<leftarrow> DFS_scan g2 u (gp_GetFirstArc g2 u);
              DFS_loop g3 n I (DFI + 1)
            }
          else DFS_loop g1 n I DFI
        }
      else Some (g, DFI))"

partial_function (option) DFS_components :: "graph \<Rightarrow> int \<Rightarrow> int \<Rightarrow> int \<Rightarrow> graph option" where
  "DFS_components g n I DFI =
     (if DFI < n then
        (if gp_GetVertexParent g I \<noteq> NIL then DFS_components g n (I + 1) DFI
         else
           do {
             (g1, DFI') \<leftarrow> DFS_loop (g\<lparr>theStack := sp_Push2 (theStack g) NIL NIL\<rparr>) n I DFI;
             DFS_components g1 n (I + 1) DFI'
           })
      else Some g)"

text \<open>
  The lowpoint pass: for \<open>I\<close> from \<open>n - 1\<close> down to 0, \<open>lowpoint_children\<close> runs over
  the sorted DFS child list of \<open>I\<close>, starting from \<open>leastValue = I\<close>.
\<close>

partial_function (option) lowpoint_children :: "graph \<Rightarrow> int \<Rightarrow> int \<Rightarrow> int \<Rightarrow> int option" where
  "lowpoint_children g I child leastValue =
     (if child \<noteq> NIL then
        (let leastValue = (if leastValue > gp_GetVertexLowpoint g child
                           then gp_GetVertexLowpoint g child else leastValue)
         in lowpoint_children g I
              (LCGetNext (sortedDFSChildLists g) (gp_GetVertexSortedDFSChildList g I) child)
              leastValue)
      else Some leastValue)"

function lowpoint_pass :: "graph \<Rightarrow> int \<Rightarrow> graph option" where
  "lowpoint_pass g I =
     (if I \<ge> 0 then
        do {
          leastValue \<leftarrow> lowpoint_children g I (gp_GetVertexSortedDFSChildList g I) I;
          let leastValue = (if leastValue > gp_GetVertexLeastAncestor g I
                            then gp_GetVertexLeastAncestor g I else leastValue);
          lowpoint_pass (gp_SetVertexLowpoint g I leastValue) (I - 1)
        }
      else Some g)"
  by pat_completeness auto
termination
  by (relation "measure (\<lambda>(g, I). nat (I + 1))") auto

text \<open>
  The DFS tree embedding (7): for \<open>I\<close> from 0 to \<open>n - 1\<close>, with \<open>R = I + n\<close>.
\<close>

function treeEmbedding :: "graph \<Rightarrow> int \<Rightarrow> int \<Rightarrow> graph" where
  "treeEmbedding g n I =
     (if I < n then
        (let R = I + n in
         if gp_GetVertexParent g I = NIL then
           (let g1 = gp_SetFirstArc g I (gp_AdjacencyListEndMark I);
                g2 = gp_SetLastArc g1 I (gp_AdjacencyListEndMark I)
            in treeEmbedding g2 n (I + 1))
         else
           (let J = gp_GetFirstArc g R;
                g1 = gp_SetPrevArc g J (gp_AdjacencyListEndMark I);
                g2 = gp_SetNextArc g1 J (gp_AdjacencyListEndMark I);
                JTwin = gp_GetTwinArc g2 J;
                g3 = gp_SetNeighbor g2 JTwin R;
                g4 = gp_SetFirstArc g3 I JTwin;
                g5 = gp_SetLastArc g4 I JTwin;
                g6 = gp_SetPrevArc g5 JTwin (gp_AdjacencyListEndMark I);
                g7 = gp_SetNextArc g6 JTwin (gp_AdjacencyListEndMark I);
                g8 = gp_SetExtFaceVertex g7 R 0 I;
                g9 = gp_SetExtFaceVertex g8 R 1 I;
                g10 = gp_SetExtFaceVertex g9 I 0 R;
                g11 = gp_SetExtFaceVertex g10 I 1 R
            in treeEmbedding g11 n (I + 1)))
      else g)"
  by pat_completeness auto
termination
  by (relation "measure (\<lambda>(g, n, I). nat (n - I))") auto

definition EmbeddingInitialize :: "graphFunctionTable \<Rightarrow> graph \<Rightarrow> (result \<times> graph) option" where
  "EmbeddingInitialize ft g =
     (let n = N g in
      if sp_GetCapacity (theStack g) < c_int (2 * gp_GetArcCapacity g) then Some (NOTOK, g)
      else
        do {
          let g1 = g\<lparr>theStack := sp_ClearStack (theStack g)\<rparr>;
          let g2 = ClearVertexVisitedFlags g1 False;
          g3 \<leftarrow> DFS_components g2 n 0 0;
          let g4 = g3\<lparr>internalFlags := internalFlags g3 \<union> {FLAGS_DFSNUMBERED}\<rparr>;
          case gp_SortVertices ft g4 of
            (r, g5) \<Rightarrow>
              if r \<noteq> OK then Some (NOTOK, g5)
              else
                do {
                  g6 \<leftarrow> lowpoint_pass g5 (n - 1);
                  Some (OK, treeEmbedding g6 n 0)
                }
        })"


section \<open>The separated DFS child lists\<close>

text \<open>
  \<^verbatim>\<open>_CreateSortedSeparatedDFSChildLists\<close>: a bucket sort of the vertices by lowpoint,
  in three counted loops; \<open>separate_bucket\<close> is the inner loop over one bucket.
\<close>

function clear_buckets :: "graph \<Rightarrow> int \<Rightarrow> int \<Rightarrow> graph" where
  "clear_buckets g n I =
     (if I < n then clear_buckets (g\<lparr>buckets := (buckets g)(I := NIL)\<rparr>) n (I + 1) else g)"
  by pat_completeness auto
termination
  by (relation "measure (\<lambda>(g, n, I). nat (n - I))") auto

function fill_buckets :: "graph \<Rightarrow> int \<Rightarrow> int \<Rightarrow> graph" where
  "fill_buckets g n I =
     (if I < n then
        (let L = gp_GetVertexLowpoint g I;
             (theList, lc) = LCAppend (bin g) (buckets g L) I
         in fill_buckets (g\<lparr>bin := lc, buckets := (buckets g)(L := theList)\<rparr>) n (I + 1))
      else g)"
  by pat_completeness auto
termination
  by (relation "measure (\<lambda>(g, n, I). nat (n - I))") auto

partial_function (option) separate_bucket :: "graph \<Rightarrow> int \<Rightarrow> int \<Rightarrow> graph option" where
  "separate_bucket g I L =
     (if L \<noteq> NIL then
        (let DFSParent = gp_GetVertexParent g L;
             g1 = (if DFSParent \<noteq> NIL \<and> DFSParent \<noteq> L then
                     (let theList = gp_GetVertexSeparatedDFSChildList g DFSParent;
                          (theList, lc) = LCAppend (DFSChildLists g) theList L
                      in gp_SetVertexSeparatedDFSChildList (g\<lparr>DFSChildLists := lc\<rparr>)
                           DFSParent theList)
                   else g)
         in separate_bucket g1 I (LCGetNext (bin g1) (buckets g1 I) L))
      else Some g)"

function separate_buckets :: "graph \<Rightarrow> int \<Rightarrow> int \<Rightarrow> graph option" where
  "separate_buckets g n I =
     (if I < n then
        do {
          g1 \<leftarrow> separate_bucket g I (buckets g I);
          separate_buckets g1 n (I + 1)
        }
      else Some g)"
  by pat_completeness auto
termination
  by (relation "measure (\<lambda>(g, n, I). nat (n - I))") auto

definition CreateSortedSeparatedDFSChildLists :: "graph \<Rightarrow> graph option" where
  "CreateSortedSeparatedDFSChildLists g =
     (let n = N g;
          g1 = g\<lparr>bin := LCReset (bin g)\<rparr>;
          g2 = clear_buckets g1 n 0;
          g3 = fill_buckets g2 n 0
      in separate_buckets g3 n 0)"

section \<open>The embedder\<close>

text \<open>
  \<^verbatim>\<open>_HandleBlockedEmbedIteration\<close>, the core entry of the table.
\<close>

definition HandleBlockedEmbedIteration :: "graph \<Rightarrow> int \<Rightarrow> result \<times> graph" where
  "HandleBlockedEmbedIteration g I = (NONEMBEDDABLE, g)"

text \<open>
  \<^verbatim>\<open>gp_Embed\<close>. \<open>Embed_walkups\<close> is the loop over the forward arc list of \<open>I\<close>;
  \<open>Embed_walkdowns\<close> is the loop over the sorted DFS children of \<open>I\<close>, which carries
  \<open>RetVal\<close> and leaves with \<open>Inl\<close> where the C returns \<open>NOTOK\<close>. \<open>Embed_iteration\<close> is
  the body of the main loop; the flag in its result says whether the C breaks out of the
  loop. \<open>Embed_loop\<close> counts \<open>I\<close> down from \<open>n - 1\<close> and gives back the values of \<open>I\<close>
  and \<open>RetVal\<close> with which the postprocessing is called. The graph pointer is an option,
  \<open>None\<close> for \<open>NULL\<close>.
\<close>

partial_function (option) Embed_walkups ::
  "graphFunctionTable \<Rightarrow> graph \<Rightarrow> int \<Rightarrow> int \<Rightarrow> graph option" where
  "Embed_walkups ft g I J =
     (if J \<noteq> NIL then
        do {
          g1 \<leftarrow> fpWalkUp ft g I J;
          let J' = gp_GetNextArc g1 J;
          Embed_walkups ft g1 I (if J' = gp_GetVertexFwdArcList g1 I then NIL else J')
        }
      else Some g)"

partial_function (option) Embed_walkdowns ::
  "graphFunctionTable \<Rightarrow> graph \<Rightarrow> int \<Rightarrow> int \<Rightarrow> int \<Rightarrow> result \<Rightarrow>
     ((result \<times> graph) + (result \<times> graph)) option" where
  "Embed_walkdowns ft g n I child RetVal =
     (if child \<noteq> NIL then
        (if gp_GetVertexPertinentBicompList g child \<noteq> NIL then
           do {
             (RetVal', g1) \<leftarrow> fpWalkDown ft g I (child + n);
             if RetVal' \<noteq> OK then
               (if RetVal' = NONEMBEDDABLE then Some (Inr (RetVal', g1))
                else Some (Inl (NOTOK, g1)))
             else
               Embed_walkdowns ft g1 n I
                 (LCGetNext (sortedDFSChildLists g1) (gp_GetVertexSortedDFSChildList g1 I) child)
                 RetVal'
           }
         else
           Embed_walkdowns ft g n I
             (LCGetNext (sortedDFSChildLists g) (gp_GetVertexSortedDFSChildList g I) child)
             RetVal)
      else Some (Inr (RetVal, g)))"

definition Embed_iteration ::
  "graphFunctionTable \<Rightarrow> graph \<Rightarrow> int \<Rightarrow> int \<Rightarrow>
     ((result \<times> graph) + (result \<times> graph \<times> bool)) option" where
  "Embed_iteration ft g n I =
     do {
       let g1 = gp_SetVertexVisitedInfo g I n;
       g2 \<leftarrow> Embed_walkups ft g1 I (gp_GetVertexFwdArcList g1 I);
       r \<leftarrow> Embed_walkdowns ft g2 n I (gp_GetVertexSortedDFSChildList g2 I) OK;
       case r of
         Inl ret \<Rightarrow> Some (Inl ret)
       | Inr (RetVal, g3) \<Rightarrow>
           (let g4 = gp_SetVertexPertinentBicompList g3 I NIL in
            if gp_GetVertexFwdArcList g4 I \<noteq> NIL \<or> RetVal = NONEMBEDDABLE then
              (case fpHandleBlockedEmbedIteration ft g4 I of
                 (RetVal', g5) \<Rightarrow> Some (Inr (RetVal', g5, RetVal' \<noteq> OK)))
            else Some (Inr (RetVal, g4, False)))
     }"

function Embed_loop ::
  "graphFunctionTable \<Rightarrow> graph \<Rightarrow> int \<Rightarrow> int \<Rightarrow> result \<Rightarrow>
     ((result \<times> graph) + (int \<times> result \<times> graph)) option" where
  "Embed_loop ft g n I RetVal =
     (if I \<ge> 0 then
        do {
          r \<leftarrow> Embed_iteration ft g n I;
          case r of
            Inl ret \<Rightarrow> Some (Inl ret)
          | Inr (RetVal', g1, brk) \<Rightarrow>
              if brk then Some (Inr (I, RetVal', g1))
              else Embed_loop ft g1 n (I - 1) RetVal'
        }
      else Some (Inr (I, RetVal, g)))"
  by pat_completeness auto
termination
  by (relation "measure (\<lambda>(ft, g, n, I, RetVal). nat (I + 1))") auto

definition gp_Embed ::
  "graphFunctionTable \<Rightarrow> graph option \<Rightarrow> int \<Rightarrow> (result \<times> graph option) option" where
  "gp_Embed ft theGraph flags =
     (case theGraph of
        None \<Rightarrow> Some (NOTOK, None)
      | Some g \<Rightarrow>
          (let n = N g;
               g1 = g\<lparr>embedFlags := flags\<rparr>
           in do {
                (r, g2) \<leftarrow> EmbeddingInitialize ft g1;
                if r \<noteq> OK then Some (NOTOK, Some g2)
                else
                  do {
                    g3 \<leftarrow> CreateSortedSeparatedDFSChildLists g2;
                    l \<leftarrow> Embed_loop ft g3 n (n - 1) OK;
                    case l of
                      Inl (ret, g4) \<Rightarrow> Some (ret, Some g4)
                    | Inr (I, RetVal, g4) \<Rightarrow>
                        do {
                          (ret, g5) \<leftarrow> fpEmbedPostprocess ft g4 I RetVal;
                          Some (ret, Some g5)
                        }
                  }
              }))"

text \<open>
  \<open>Embed_iterations ft g n K I\<close> is the state in which the main loop, entered at \<open>K\<close> in
  the state \<open>g\<close>, arrives at its iteration \<open>I\<close>: the iterations \<open>K, K - 1, ..., I + 1\<close>
  have run and none of them has left the loop.
\<close>

function Embed_iterations ::
  "graphFunctionTable \<Rightarrow> graph \<Rightarrow> int \<Rightarrow> int \<Rightarrow> int \<Rightarrow> graph option" where
  "Embed_iterations ft g n K I =
     (if I < K then
        do {
          r \<leftarrow> Embed_iteration ft g n K;
          case r of
            Inl ret \<Rightarrow> None
          | Inr (RetVal, g1, brk) \<Rightarrow>
              if brk then None else Embed_iterations ft g1 n (K - 1) I
        }
      else Some g)"
  by pat_completeness auto
termination
  by (relation "measure (\<lambda>(ft, g, n, K, I). nat (K - I))") auto

section \<open>Linked structures as lists\<close>

text \<open>
  \<open>arc_path g J as\<close>: following the successor links from \<open>J\<close> meets exactly the arcs
  \<open>as\<close>, in this order, and then a value that is not an arc. The adjacency list of a
  vertex \<open>v\<close> holds the arcs \<open>as\<close> if \<open>arc_path g (gp_GetFirstArc g v) as\<close>.
  \<open>swapLinks\<close> exchanges the two links of an arc record.
\<close>

fun arc_path :: "graph \<Rightarrow> int \<Rightarrow> int list \<Rightarrow> bool" where
  "arc_path g J [] = (\<not> gp_IsArc g J)"
| "arc_path g J (a # as) = (J = a \<and> gp_IsArc g J \<and> arc_path g (gp_GetNextArc g J) as)"

definition swapLinks :: "arcRec \<Rightarrow> arcRec" where
  "swapLinks r = r\<lparr>nextArc := prevArc r, prevArc := nextArc r\<rparr>"

text \<open>
  \<open>arc_path_back\<close> follows the predecessor links. \<open>adjacencyList g v as\<close>: the
  adjacency list of \<open>v\<close> is doubly linked and holds the arcs \<open>as\<close>, read \<open>as\<close> from the
  first arc forwards and \<open>rev as\<close> from the last arc backwards.
\<close>

fun arc_path_back :: "graph \<Rightarrow> int \<Rightarrow> int list \<Rightarrow> bool" where
  "arc_path_back g J [] = (\<not> gp_IsArc g J)"
| "arc_path_back g J (a # as) =
     (J = a \<and> gp_IsArc g J \<and> arc_path_back g (gp_GetPrevArc g J) as)"

definition adjacencyList :: "graph \<Rightarrow> int \<Rightarrow> int list \<Rightarrow> bool" where
  "adjacencyList g v as =
     (arc_path g (gp_GetFirstArc g v) as \<and> arc_path_back g (gp_GetLastArc g v) (rev as))"

text \<open>
  \<open>invertedAt g v as\<close> is \<open>g\<close> with the vertex \<open>v\<close> inverted, \<open>as\<close> being its arcs.
  \<open>xorFirstChild g as\<close> is \<open>g\<close> with the inversion flag reversed on the first arc of
  \<open>as\<close> that is typed as a tree-child arc, if there is one. \<open>flipped g R as\<close> is the
  effect of flipping the bicomp rooted at \<open>R\<close>, whose adjacency list is \<open>as\<close>: \<open>R\<close> is
  inverted if it has more than one arc, and the inversion flag of its first tree-child
  arc, in the order of the list that results, is reversed.
\<close>

definition invertedAt :: "graph \<Rightarrow> int \<Rightarrow> int list \<Rightarrow> graph" where
  "invertedAt g v as =
     g\<lparr>E := (\<lambda>e. if e \<in> set as then swapLinks (E g e) else E g e),
       V := (V g)(v := (V g v)\<lparr>firstArc := lastArc (V g v), lastArc := firstArc (V g v),
                               extFace0 := extFace1 (V g v), extFace1 := extFace0 (V g v)\<rparr>)\<rparr>"

definition xorFirstChild :: "graph \<Rightarrow> int list \<Rightarrow> graph" where
  "xorFirstChild g as =
     (case find (\<lambda>a. gp_GetEdgeType g a = EDGE_TYPE_CHILD) as of
        None \<Rightarrow> g
      | Some a \<Rightarrow> gp_XorEdgeFlagInverted g a)"

definition flipped :: "graph \<Rightarrow> int \<Rightarrow> int list \<Rightarrow> graph" where
  "flipped g R as =
     (if 1 < length as then xorFirstChild (invertedAt g R as) (rev as) else xorFirstChild g as)"

text \<open>
  \<open>LC_path lc theList node cs\<close>: the traversal of a list of a list collection with
  \<open>LCGetNext\<close>, started at \<open>node\<close>, visits exactly the nodes \<open>cs\<close> and then ends with
  \<open>NIL\<close>. \<open>sortedChildren g I cs\<close>: the sorted DFS child list of \<open>I\<close> is traversed as \<open>cs\<close>.
\<close>

fun LC_path :: "listCollection \<Rightarrow> int \<Rightarrow> int \<Rightarrow> int list \<Rightarrow> bool" where
  "LC_path lc theList node [] = (node = NIL)"
| "LC_path lc theList node (c # cs) =
     (node = c \<and> node \<noteq> NIL \<and> LC_path lc theList (LCGetNext lc theList node) cs)"

definition sortedChildren :: "graph \<Rightarrow> int \<Rightarrow> int list \<Rightarrow> bool" where
  "sortedChildren g I cs =
     LC_path (sortedDFSChildLists g) (gp_GetVertexSortedDFSChildList g I)
       (gp_GetVertexSortedDFSChildList g I) cs"

text \<open>
  \<open>LC_list lc theList xs\<close>: the list named by the head \<open>theList\<close> in the list collection
  \<open>lc\<close> holds the items \<open>xs\<close>, in this order. The items are distinct and none is \<open>NIL\<close>;
  each is linked to the next and back, and the last is linked to the head and back
  (\<open>LC_links\<close>). The empty list has the head \<open>NIL\<close>.
\<close>

fun LC_links :: "listCollection \<Rightarrow> int \<Rightarrow> int list \<Rightarrow> bool" where
  "LC_links lc first [] = True"
| "LC_links lc first [x] = (lc_next (lc x) = first \<and> lc_prev (lc first) = x)"
| "LC_links lc first (x # y # ys) =
     (lc_next (lc x) = y \<and> lc_prev (lc y) = x \<and> LC_links lc first (y # ys))"

definition LC_list :: "listCollection \<Rightarrow> int \<Rightarrow> int list \<Rightarrow> bool" where
  "LC_list lc theList xs =
     (if xs = [] then theList = NIL
      else theList = hd xs \<and> NIL \<notin> set xs \<and> distinct xs \<and> LC_links lc theList xs)"

text \<open>
  \<open>internalFirst g I cs\<close>: in the list \<open>cs\<close> of DFS children, the roots of internally
  active bicomps (lowpoint of the child at least \<open>I\<close>) all come before the roots of
  externally active ones (lowpoint of the child below \<open>I\<close>).
\<close>

definition internalFirst :: "graph \<Rightarrow> int \<Rightarrow> int list \<Rightarrow> bool" where
  "internalFirst g I xs =
     (xs = filter (\<lambda>c. I \<le> gp_GetVertexLowpoint g c) xs @
           filter (\<lambda>c. gp_GetVertexLowpoint g c < I) xs)"






section \<open>Example states\<close>

text \<open>
  Concrete states on which the theorems below are instantiated. \<open>graph0 n\<close> is a graph of
  \<open>n\<close> vertices in which every field of every record is \<open>NIL\<close>, false or empty.
\<close>

definition vertexRec0 :: vertexRec where
  "vertexRec0 =
     \<lparr>index = NIL, parent = NIL, visited = False, visitedInfo = NIL, leastAncestor = NIL,
      lowpoint = NIL, sortedDFSChildList = NIL, separatedDFSChildList = NIL,
      pertinentBicompList = NIL, fwdArcList = NIL, pertinentAdjacencyInfo = NIL,
      firstArc = NIL, lastArc = NIL, extFace0 = NIL, extFace1 = NIL,
      extFaceInversionFlag = False\<rparr>"

definition arcRec0 :: arcRec where
  "arcRec0 =
     \<lparr>neighbor = NIL, nextArc = NIL, prevArc = NIL, etype = EDGE_TYPE_UNKNOWN,
      inverted = False\<rparr>"

definition lc0 :: listCollection where
  "lc0 = (\<lambda>_. \<lparr>lc_prev = NIL, lc_next = NIL\<rparr>)"

definition graph0 :: "int \<Rightarrow> graph" where
  "graph0 n =
     \<lparr>N = n, V = (\<lambda>_. vertexRec0), E = (\<lambda>_. arcRec0), arcCapacity = 0,
      theStack = \<lparr>items = [], capacity = 0\<rparr>, internalFlags = {}, embedFlags = 0,
      sortedDFSChildLists = lc0, DFSChildLists = lc0, BicompLists = lc0, bin = lc0,
      buckets = (\<lambda>_. NIL)\<rparr>"

text \<open>
  A vertex 0 whose adjacency list holds the arcs 2 and 4, with the vertices 1 and 3 as
  its external-face neighbours.
\<close>

definition invertExample :: graph where
  "invertExample =
     (graph0 4)\<lparr>
       V := (\<lambda>_. vertexRec0)
              (0 := vertexRec0\<lparr>firstArc := 2, lastArc := 4, extFace0 := 1, extFace1 := 3\<rparr>),
       E := (\<lambda>_. arcRec0)
              (2 := arcRec0\<lparr>neighbor := 1, nextArc := 4, prevArc := NIL\<rparr>,
               4 := arcRec0\<lparr>neighbor := 3, nextArc := NIL, prevArc := 2\<rparr>)\<rparr>"


text \<open>
  A graph of one vertex and no edge whose arc capacity is \<open>2^30\<close>, twice which is not an
  \<^verbatim>\<open>int\<close>, and whose stack has the capacity 4.
\<close>

definition wideArcCapacityExample :: graph where
  "wideArcCapacityExample =
     (graph0 1)\<lparr>arcCapacity := 2 ^ 30, theStack := \<lparr>items = [], capacity = 4\<rparr>\<rparr>"


text \<open>
  A graph of three vertices in the middle of a Walkdown: the stack holds the cut vertex
  \<open>Z = 1\<close> entered by link 1 and, above it, the root copy \<open>R = 5\<close> left by link 1. The
  adjacency list of \<open>R\<close> holds the tree-child arc 10 and the forward arc 12, both leading
  to the vertex 2.
\<close>

definition mergeExample :: graph where
  "mergeExample =
     (graph0 3)\<lparr>
       V := (\<lambda>_. vertexRec0)
              (5 := vertexRec0\<lparr>firstArc := 10, lastArc := 12, extFace0 := 2, extFace1 := 2\<rparr>,
               2 := vertexRec0\<lparr>parent := 1, firstArc := 11, lastArc := 13, extFace0 := 5,
                               extFace1 := 5\<rparr>,
               1 := vertexRec0\<lparr>parent := 0, firstArc := 9, lastArc := 9, extFace0 := 4,
                               extFace1 := 4, pertinentBicompList := 2,
                               separatedDFSChildList := 2\<rparr>),
       E := (\<lambda>_. arcRec0)
              (10 := arcRec0\<lparr>neighbor := 2, nextArc := 12, prevArc := NIL,
                               etype := EDGE_TYPE_CHILD\<rparr>,
               12 := arcRec0\<lparr>neighbor := 2, nextArc := NIL, prevArc := 10,
                               etype := EDGE_TYPE_FORWARD\<rparr>),
       theStack := \<lparr>items = [1, 5, 1, 1], capacity = 8\<rparr>\<rparr>"

text \<open>
  A function table with the core routines of \<^verbatim>\<open>graphEmbed.c\<close>. The two entries that are
  not part of the sources are examples: \<open>clearVertexRec\<close> resets a vertex record, and the
  vertex sort leaves the graph as it is, which is right for a graph whose vertices are
  already numbered in the order in which the depth-first search reaches them. The
  postprocessing entry passes the result through. \<open>coreFunctions\<close> is \<open>walkFunctions\<close>
  with its Walkdown entry set to \<open>WalkDown\<close>, which reads the other entries only.
\<close>

definition clearVertexRec :: "graph \<Rightarrow> int \<Rightarrow> graph" where
  "clearVertexRec g v = g\<lparr>V := (V g)(v := vertexRec0)\<rparr>"

definition sortedAlready :: "graph \<Rightarrow> result \<times> graph" where
  "sortedAlready g = (OK, g\<lparr>internalFlags := internalFlags g \<union> {FLAGS_SORTEDBYDFI}\<rparr>)"

definition passResult :: "graph \<Rightarrow> int \<Rightarrow> result \<Rightarrow> (result \<times> graph) option" where
  "passResult g I r = Some (r, g)"

definition walkFunctions :: graphFunctionTable where
  "walkFunctions =
     \<lparr>fpInitVertexRec = clearVertexRec,
      fpSortVertices = sortedAlready,
      fpEmbedBackEdgeToDescendant = EmbedBackEdgeToDescendant,
      fpMergeBicomps = MergeBicomps clearVertexRec,
      fpHandleInactiveVertex = HandleInactiveVertex,
      fpHandleBlockedDescendantBicomp = HandleBlockedDescendantBicomp,
      fpWalkUp = WalkUp,
      fpWalkDown = (\<lambda>g I RootVertex. None),
      fpHandleBlockedEmbedIteration = HandleBlockedEmbedIteration,
      fpEmbedPostprocess = passResult\<rparr>"

definition coreFunctions :: graphFunctionTable where
  "coreFunctions = walkFunctions\<lparr>fpWalkDown := WalkDown walkFunctions\<rparr>"

text \<open>
  Input graphs. \<open>graphOfEdges n es\<close> has the vertices \<open>0..n-1\<close> and the edges \<open>es\<close>: the
  \<open>k\<close>-th edge \<open>(u, v)\<close> is the arc \<open>2n + 2k\<close> from \<open>u\<close> to \<open>v\<close> and its twin
  \<open>2n + 2k + 1\<close> from \<open>v\<close> to \<open>u\<close>, each put at the end of its owner's adjacency list.
  No vertex is visited or has a parent, and the least ancestor of each is \<open>n\<close>, above
  every depth-first index. The stack has twice the arc capacity.
\<close>

definition addArc :: "graph \<Rightarrow> int \<Rightarrow> int \<Rightarrow> int \<Rightarrow> graph" where
  "addArc g u v a =
     (let l = gp_GetLastArc g u;
          g1 = g\<lparr>E := (E g)(a := arcRec0\<lparr>neighbor := v, prevArc := l\<rparr>)\<rparr>;
          g2 = (if l = NIL then gp_SetFirstArc g1 u a else gp_SetNextArc g1 l a)
      in gp_SetLastArc g2 u a)"

fun addEdges :: "graph \<Rightarrow> int \<Rightarrow> (int \<times> int) list \<Rightarrow> graph" where
  "addEdges g a [] = g"
| "addEdges g a ((u, v) # es) = addEdges (addArc (addArc g u v a) v u (a + 1)) (a + 2) es"

definition graphOfEdges :: "int \<Rightarrow> (int \<times> int) list \<Rightarrow> graph" where
  "graphOfEdges n es =
     addEdges
       ((graph0 n)\<lparr>
          V := (\<lambda>v. vertexRec0\<lparr>index := v, leastAncestor := n, lowpoint := n,
                                 visitedInfo := n\<rparr>),
          arcCapacity := 2 * int (length es),
          theStack := \<lparr>items = [], capacity = 4 * int (length es)\<rparr>\<rparr>)
       (2 * n) es"

text \<open>
  The triangle on the vertices 0, 1, 2 and the complete graph on five vertices, both
  numbered in depth-first order.
\<close>

definition triangle :: graph where
  "triangle = graphOfEdges 3 [(0, 2), (0, 1), (1, 2)]"

definition K5 :: graph where
  "K5 = graphOfEdges 5
          [(0, 4), (0, 3), (0, 2), (0, 1), (1, 4), (1, 3), (1, 2), (2, 4), (2, 3), (3, 4)]"

text \<open>
  The triangle when the Walkdowns of step 0 begin: after the initialisation, the bucket
  sort, the steps 2 and 1, and the Walkup of step 0 for the forward arc from 0 to 2.
\<close>

definition triangleReady :: "graph option" where
  "triangleReady =
     do {
       (r, g) \<leftarrow> EmbeddingInitialize coreFunctions triangle;
       CreateSortedSeparatedDFSChildLists g
     }"

definition triangleWalkedUp :: "graph option" where
  "triangleWalkedUp =
     do {
       g \<leftarrow> triangleReady;
       r2 \<leftarrow> Embed_iteration coreFunctions g 3 2;
       r1 \<leftarrow> (case r2 of
               Inl ret \<Rightarrow> None
             | Inr (r, g2, brk) \<Rightarrow> Embed_iteration coreFunctions g2 3 1);
       case r1 of
         Inl ret \<Rightarrow> None
       | Inr (r, g1, brk) \<Rightarrow>
           (let g0 = gp_SetVertexVisitedInfo g1 0 3
            in Embed_walkups coreFunctions g0 0 (gp_GetVertexFwdArcList g0 0))
     }"

text \<open>
  A graph in which the vertex 2 has the two children 3 and 4, each with a back edge to
  the vertex 1, and 4 with one more to the vertex 0. \<open>twoBranchesWalkedUp\<close> is the state
  in step 1 in which the Walkup for the first forward arc of 1, to the vertex 3, has
  returned and the Walkup for the second, the arc 14 to the vertex 4, has marked 4 and is
  about to enter its loop.
\<close>

definition twoBranches :: graph where
  "twoBranches = graphOfEdges 5 [(0, 4), (0, 1), (1, 4), (1, 3), (1, 2), (2, 4), (2, 3)]"

definition twoBranchesWalkedUp :: "graph option" where
  "twoBranchesWalkedUp =
     do {
       (r, gi) \<leftarrow> EmbeddingInitialize coreFunctions twoBranches;
       gs \<leftarrow> CreateSortedSeparatedDFSChildLists gi;
       g \<leftarrow> Embed_iterations coreFunctions gs 5 4 1;
       let g1 = gp_SetVertexVisitedInfo g 1 5;
       g2 \<leftarrow> WalkUp g1 1 (gp_GetVertexFwdArcList g1 1);
       Some (gp_SetVertexPertinentAdjacencyInfo g2 4 14)
     }"

text \<open>
  \<open>DFS_pass\<close> is one pass of the loop of \<open>DFS_loop\<close>. \<open>twoBranchesScan\<close> is the depth-first
  search of \<open>twoBranches\<close> stopped in its fifth pass: the vertices 0, 1, 2 and 3 are
  numbered, the vertex 3 has moved the twin 16 of its back arc into the forward arc list of
  the vertex 1, the vertex 4 has just been numbered and the first arc of its list, the
  arc 11 to the vertex 0, has been handled as a back arc. The next arc of the scan is 15,
  which leads to the vertex 1; its twin is 14.
\<close>

definition DFS_pass :: "graph \<Rightarrow> int \<Rightarrow> int \<Rightarrow> int \<Rightarrow> (graph \<times> int) option" where
  "DFS_pass g n I DFI =
     do {
       (uparent, e, s1) \<leftarrow> sp_Pop2 (theStack g);
       let g1 = g\<lparr>theStack := s1\<rparr>;
       let u = (if uparent = NIL then I else gp_GetNeighbor g1 e);
       if \<not> gp_GetVertexVisited g1 u then
         do {
           let g2 = DFS_number g1 n u uparent e DFI;
           g3 \<leftarrow> DFS_scan g2 u (gp_GetFirstArc g2 u);
           Some (g3, DFI + 1)
         }
       else Some (g1, DFI)
     }"



section \<open>Properties\<close>

lemmas gp_vertex_defs =
  gp_GetVertexIndex_def gp_SetVertexIndex_def gp_GetVertexParent_def gp_SetVertexParent_def
  gp_GetVertexVisited_def gp_SetVertexVisited_def gp_GetVertexVisitedInfo_def
  gp_SetVertexVisitedInfo_def gp_GetVertexLeastAncestor_def gp_SetVertexLeastAncestor_def
  gp_GetVertexLowpoint_def gp_SetVertexLowpoint_def gp_GetVertexSortedDFSChildList_def
  gp_SetVertexSortedDFSChildList_def gp_GetVertexSeparatedDFSChildList_def
  gp_SetVertexSeparatedDFSChildList_def gp_GetVertexPertinentBicompList_def
  gp_SetVertexPertinentBicompList_def gp_GetVertexFwdArcList_def gp_SetVertexFwdArcList_def
  gp_GetVertexPertinentAdjacencyInfo_def gp_SetVertexPertinentAdjacencyInfo_def
  gp_GetFirstArc_def gp_SetFirstArc_def gp_GetLastArc_def gp_SetLastArc_def
  gp_GetArc_def gp_SetArc_def gp_GetExtFaceVertex_def gp_SetExtFaceVertex_def
  gp_GetExtFaceInversionFlag_def gp_SetExtFaceInversionFlag_def
  gp_ClearExtFaceInversionFlag_def

lemmas gp_arc_defs =
  gp_IsArc_def gp_AdjacencyListEndMark_def gp_GetTwinArc_def gp_GetNeighbor_def
  gp_SetNeighbor_def gp_GetNextArc_def gp_SetNextArc_def gp_GetPrevArc_def gp_SetPrevArc_def
  gp_GetAdjacentArc_def gp_SetAdjacentArc_def gp_GetEdgeType_def gp_SetEdgeType_def
  gp_GetEdgeFlagInverted_def gp_XorEdgeFlagInverted_def gp_GetArcCapacity_def

lemmas example_defs = NIL_def c_int_def vertexRec0_def arcRec0_def lc0_def graph0_def

subsection \<open>Running the model on a concrete graph\<close>

text \<open>
  The simplifier runs the model on a concrete graph by unfolding the definitions. The
  congruence rules make it evaluate the bound value of a \<open>let\<close>, a \<open>do\<close> or a \<open>case\<close>
  before it enters the body, and \<open>case_prod_eval\<close> takes a pair apart one component at a
  time, so that the body is only ever simplified on concrete values.
\<close>

lemma case_prod_eval: "case_prod f (a, b) = Let a (\<lambda>x. Let b (\<lambda>y. f x y))"
  by simp

lemma bind_weak_cong: "m = m' \<Longrightarrow> Option.bind m f = Option.bind m' f"
  by simp

lemmas eval_congs =
  let_weak_cong bind_weak_cong prod.case_cong_weak sum.case_cong_weak option.case_cong_weak

lemma xor_bits:
  "(1::int) XOR 1 = 0" "(1::int) XOR 0 = 1" "(0::int) XOR 1 = 1" "(0::int) XOR 0 = 0"
  by simp_all

lemma coreFunctions_sel:
  "fpInitVertexRec coreFunctions = clearVertexRec"
  "fpSortVertices coreFunctions = sortedAlready"
  "fpEmbedBackEdgeToDescendant coreFunctions = EmbedBackEdgeToDescendant"
  "fpMergeBicomps coreFunctions = MergeBicomps clearVertexRec"
  "fpHandleInactiveVertex coreFunctions = HandleInactiveVertex"
  "fpHandleBlockedDescendantBicomp coreFunctions = HandleBlockedDescendantBicomp"
  "fpWalkUp coreFunctions = WalkUp"
  "fpWalkDown coreFunctions = WalkDown walkFunctions"
  "fpHandleBlockedEmbedIteration coreFunctions = HandleBlockedEmbedIteration"
  "fpEmbedPostprocess coreFunctions = passResult"
  "fpInitVertexRec walkFunctions = clearVertexRec"
  "fpEmbedBackEdgeToDescendant walkFunctions = EmbedBackEdgeToDescendant"
  "fpMergeBicomps walkFunctions = MergeBicomps clearVertexRec"
  "fpHandleInactiveVertex walkFunctions = HandleInactiveVertex"
  "fpHandleBlockedDescendantBicomp walkFunctions = HandleBlockedDescendantBicomp"
  by (simp_all add: walkFunctions_def coreFunctions_def)

lemmas eval_defs =
  sp_ClearStack_def sp_NonEmpty_def sp_GetCapacity_def sp_Push_def sp_Push2_def
  sp_Pop_def sp_Pop2_def LCAppend_def LCPrepend_def LCGetNext_def LCDelete_def LCReset_def
  example_defs gp_vertex_defs gp_arc_defs
  clearVertexRec_def sortedAlready_def passResult_def coreFunctions_sel graphOfEdges_def
  addArc_def triangle_def K5_def triangleReady_def triangleWalkedUp_def
  WalkDown_def WalkDown_side_def WalkDown_entryLink_def WalkDown_shortCircuit_def WalkDown_embed_def
  WalkDown_descend_def VertexActiveStatus_def EXTERNALLYACTIVE_def PERTINENT_def
  GetPertinentChildBicomp_def HandleInactiveVertex_def HandleBlockedDescendantBicomp_def
  EmbedBackEdgeToDescendant_def MergeVertex_def MergeVertex_splice_def MergeBicomps_extFace_def
  MergeBicomps_flip_def MergeBicomps_unlist_def InvertVertex_def
  WalkDown_loop.simps MergeBicomps.simps MergeVertex_redirect.simps MergeBicomps_xorChild.simps
  InvertVertex_arcs.simps
  WalkUp_def WalkUp_next_def WalkUp_record_def WalkUp_loop.simps
  EmbeddingInitialize_def ClearVertexVisitedFlags_def gp_SortVertices_def DFS_number_def
  DFS_backArc_def DFS_scan.simps DFS_loop.simps DFS_components.simps lowpoint_children.simps
  CreateSortedSeparatedDFSChildLists_def separate_bucket.simps
  HandleBlockedEmbedIteration_def Embed_walkups.simps Embed_walkdowns.simps Embed_iteration_def
  gp_Embed_def Let_def xor_bits case_prod_eval

subsection \<open>Adjacency lists\<close>

lemma arc_path_unique: "arc_path g J as \<Longrightarrow> arc_path g J bs \<Longrightarrow> as = bs"
proof (induction as arbitrary: J bs)
  case Nil
  then show ?case by (cases bs) auto
next
  case (Cons a as)
  then show ?case by (cases bs) auto
qed

lemma arc_path_suffix: "arc_path g J (xs @ a # ys) \<Longrightarrow> arc_path g a (a # ys)"
  by (induction xs arbitrary: J) auto

lemma arc_path_fresh:
  assumes "arc_path g (gp_GetNextArc g a) as"
  shows "a \<notin> set as"
proof
  assume "a \<in> set as"
  then obtain xs ys where as: "as = xs @ a # ys" by (auto simp: in_set_conv_decomp)
  with assms have "arc_path g a (a # ys)" using arc_path_suffix by blast
  then have "arc_path g (gp_GetNextArc g a) ys" by simp
  with assms have "as = ys" by (rule arc_path_unique)
  with as show False by simp
qed

lemma arc_path_distinct: "arc_path g J as \<Longrightarrow> distinct as"
  by (induction as arbitrary: J) (auto dest: arc_path_fresh)

lemma arc_path_cong:
  "\<forall>e\<in>set as. nextArc (E g' e) = nextArc (E g e) \<Longrightarrow> arc_path g' J as = arc_path g J as"
  by (induction as arbitrary: J) (auto simp: gp_IsArc_def gp_GetNextArc_def)

lemma InvertVertex_arcs_path:
  "arc_path g J as \<Longrightarrow>
   InvertVertex_arcs g J =
     Some (g\<lparr>E := (\<lambda>e. if e \<in> set as then swapLinks (E g e) else E g e)\<rparr>)"
proof (induction as arbitrary: g J)
  case Nil
  then show ?case by (subst InvertVertex_arcs.simps) simp
next
  case (Cons a as)
  let ?g2 = "gp_SetPrevArc (gp_SetNextArc g a (gp_GetPrevArc g a)) a (gp_GetNextArc g a)"
  from Cons.prems have J: "J = a" and arc: "gp_IsArc g a"
    and rest: "arc_path g (gp_GetNextArc g a) as" by auto
  have fresh: "a \<notin> set as" using rest by (rule arc_path_fresh)
  have E2: "E ?g2 = (E g)(a := swapLinks (E g a))"
    by (simp add: gp_arc_defs swapLinks_def)
  have "arc_path ?g2 (gp_GetNextArc g a) as = arc_path g (gp_GetNextArc g a) as"
    by (rule arc_path_cong) (use fresh E2 in auto)
  with rest have "arc_path ?g2 (gp_GetNextArc g a) as" by simp
  from Cons.IH[OF this]
  have "InvertVertex_arcs ?g2 (gp_GetNextArc g a) =
          Some (?g2\<lparr>E := (\<lambda>e. if e \<in> set as then swapLinks (E ?g2 e) else E ?g2 e)\<rparr>)" .
  moreover have "?g2\<lparr>E := (\<lambda>e. if e \<in> set as then swapLinks (E ?g2 e) else E ?g2 e)\<rparr>
      = g\<lparr>E := (\<lambda>e. if e \<in> set (a # as) then swapLinks (E g e) else E g e)\<rparr>"
    using fresh by (auto simp: gp_arc_defs swapLinks_def fun_eq_iff)
  ultimately show ?case using arc J
    by (subst InvertVertex_arcs.simps) (simp add: Let_def)
qed

subsection \<open>Vertex inversion\<close>

text \<open>
  C7. If the adjacency list of \<open>V\<close> holds the arcs \<open>as\<close>, then \<^verbatim>\<open>_InvertVertex(V)\<close>
  returns, and the graph it leaves differs from the one it was given in exactly this: each
  arc of \<open>as\<close> has its successor and predecessor links exchanged, and \<open>V\<close> has its first
  and last arc exchanged and its two external-face links exchanged. Every other field of
  \<open>V\<close> and of its arcs, and every other record, is as before.
\<close>

theorem InvertVertex_swaps:
  assumes "arc_path g (gp_GetFirstArc g v) as"
  shows "InvertVertex g v =
     Some (g\<lparr>E := (\<lambda>e. if e \<in> set as then swapLinks (E g e) else E g e),
             V := (V g)(v := (V g v)\<lparr>firstArc := lastArc (V g v), lastArc := firstArc (V g v),
                                     extFace0 := extFace1 (V g v), extFace1 := extFace0 (V g v)\<rparr>)\<rparr>)"
  unfolding InvertVertex_def InvertVertex_arcs_path[OF assms]
  by (simp add: gp_vertex_defs)

theorem InvertVertex_swaps_witness:
  "arc_path invertExample (gp_GetFirstArc invertExample 0) [2, 4] \<and>
   (\<exists>g'. InvertVertex invertExample 0 = Some g' \<and>
      gp_GetFirstArc g' 0 = 4 \<and> gp_GetLastArc g' 0 = 2 \<and>
      gp_GetExtFaceVertex g' 0 0 = 3 \<and> gp_GetExtFaceVertex g' 0 1 = 1 \<and>
      gp_GetNextArc g' 4 = 2 \<and> gp_GetPrevArc g' 4 = NIL \<and>
      gp_GetNextArc g' 2 = NIL \<and> gp_GetPrevArc g' 2 = 4 \<and>
      gp_GetNeighbor g' 2 = 1 \<and> gp_GetNeighbor g' 4 = 3)"
proof -
  have p: "arc_path invertExample (gp_GetFirstArc invertExample 0) [2, 4]"
    by (simp add: invertExample_def example_defs gp_vertex_defs gp_arc_defs)
  show ?thesis
    using p InvertVertex_swaps[OF p]
    by (simp add: invertExample_def example_defs gp_vertex_defs gp_arc_defs swapLinks_def)
qed

subsection \<open>Initialisation: the stack capacity\<close>


text \<open>
  The test as the C evaluates it: whenever the capacity of the stack is less than the
  \<^verbatim>\<open>int\<close> product, the routine returns \<open>NOTOK\<close> and leaves the graph as it was.
\<close>

lemma EmbeddingInitialize_capacity_test:
  "sp_GetCapacity (theStack g) < c_int (2 * gp_GetArcCapacity g) \<Longrightarrow>
   EmbeddingInitialize ft g = Some (NOTOK, g)"
  by (simp add: EmbeddingInitialize_def)



text \<open>
  Outside this range the product wraps around. With the arc capacity \<open>2^30\<close> it is
  \<open>-2^31\<close>, below every capacity: the test does not fire although the stack is smaller
  than twice the arc capacity, and the initialisation runs and returns \<open>OK\<close>.
\<close>

lemma EmbeddingInitialize_capacity_wraps:
  "sp_GetCapacity (theStack wideArcCapacityExample) < 2 * gp_GetArcCapacity wideArcCapacityExample \<and>
   c_int (2 * gp_GetArcCapacity wideArcCapacityExample) = - (2 ^ 31) \<and>
   map_option fst (EmbeddingInitialize coreFunctions wideArcCapacityExample) = Some OK"
  by (simp add: eval_defs wideArcCapacityExample_def cong: eval_congs del: prod.case case_prod_conv)

subsection \<open>The embedder: the null graph\<close>

text \<open>
  C10. Called with a null graph pointer, \<^verbatim>\<open>gp_Embed\<close> returns \<open>NOTOK\<close>, whatever the
  embedding flags and the function table are; there is no graph state that it could read
  or change.
\<close>

theorem gp_Embed_null: "gp_Embed ft None flags = Some (NOTOK, None)"
  by (simp add: gp_Embed_def)

subsection \<open>Flipping a bicomp in a merge\<close>

lemma InvertVertex_invertedAt:
  "arc_path g (gp_GetFirstArc g v) as \<Longrightarrow> InvertVertex g v = Some (invertedAt g v as)"
  unfolding InvertVertex_def invertedAt_def
  by (simp add: InvertVertex_arcs_path gp_vertex_defs)

lemma xorChild_path:
  "arc_path g J as \<Longrightarrow> MergeBicomps_xorChild g J = Some (xorFirstChild g as)"
proof (induction as arbitrary: J)
  case Nil
  then show ?case by (subst MergeBicomps_xorChild.simps) (simp add: xorFirstChild_def)
next
  case (Cons a as)
  then show ?case
    by (subst MergeBicomps_xorChild.simps) (auto simp: xorFirstChild_def)
qed

lemma arc_path_back_inverted:
  "distinct as \<Longrightarrow> set as \<subseteq> set bs \<Longrightarrow> arc_path_back g J as \<Longrightarrow>
     arc_path (invertedAt g v bs) J as"
  by (induction as arbitrary: J)
     (auto simp: invertedAt_def gp_IsArc_def gp_GetNextArc_def gp_GetPrevArc_def swapLinks_def)

lemma arc_path_hd: "arc_path g J as \<Longrightarrow> as \<noteq> [] \<Longrightarrow> J = hd as"
  by (cases as) auto

lemma arc_path_back_hd: "arc_path_back g J as \<Longrightarrow> as \<noteq> [] \<Longrightarrow> J = hd as"
  by (cases as) auto

lemma adjacencyList_first_last:
  assumes "adjacencyList g v as"
  shows "(gp_GetFirstArc g v \<noteq> gp_GetLastArc g v) = (1 < length as)"
proof (cases as)
  case Nil
  with assms show ?thesis by (simp add: adjacencyList_def gp_IsArc_def)
next
  case (Cons a bs)
  from assms have p: "arc_path g (gp_GetFirstArc g v) as"
    and b: "arc_path_back g (gp_GetLastArc g v) (rev as)" by (simp_all add: adjacencyList_def)
  have d: "distinct as" using p by (rule arc_path_distinct)
  have f: "gp_GetFirstArc g v = a" using p Cons by simp
  have l: "gp_GetLastArc g v = last as"
    using arc_path_back_hd[OF b] Cons by (simp add: hd_rev)
  show ?thesis
  proof (cases bs)
    case Nil
    with Cons f l show ?thesis by simp
  next
    case (Cons b cs)
    with \<open>as = a # bs\<close> d have "last as \<noteq> a" by auto
    with f l Cons \<open>as = a # bs\<close> show ?thesis by simp
  qed
qed

lemma MergeBicomps_flip_eq:
  assumes "ZPrevLink = Rout" and "adjacencyList g R as"
  shows "(gp_GetFirstArc g R \<noteq> gp_GetLastArc g R) = (1 < length as) \<and>
         MergeBicomps_flip g R Rout ZPrevLink =
           Some (1 XOR ZPrevLink,
                 if 1 < length as then xorFirstChild (invertedAt g R as) (rev as)
                 else xorFirstChild g as)"
proof -
  from assms(2) have p: "arc_path g (gp_GetFirstArc g R) as"
    and b: "arc_path_back g (gp_GetLastArc g R) (rev as)" by (simp_all add: adjacencyList_def)
  have fl: "(gp_GetFirstArc g R \<noteq> gp_GetLastArc g R) = (1 < length as)"
    using assms(2) by (rule adjacencyList_first_last)
  have d: "distinct as" using p by (rule arc_path_distinct)
  show ?thesis
  proof (cases "1 < length as")
    case True
    have "arc_path (invertedAt g R as) (gp_GetLastArc g R) (rev as)"
      using d b by (intro arc_path_back_inverted) auto
    moreover have "gp_GetFirstArc (invertedAt g R as) R = gp_GetLastArc g R"
      by (simp add: invertedAt_def gp_vertex_defs)
    ultimately have "MergeBicomps_xorChild (invertedAt g R as) (gp_GetFirstArc (invertedAt g R as) R)
        = Some (xorFirstChild (invertedAt g R as) (rev as))"
      by (simp add: xorChild_path)
    with True fl assms(1) show ?thesis
      by (simp add: MergeBicomps_flip_def InvertVertex_invertedAt[OF p])
  next
    case False
    with fl assms(1) xorChild_path[OF p] show ?thesis
      by (simp add: MergeBicomps_flip_def)
  qed
qed

lemma arc_path_cong2:
  "E g' = E g \<Longrightarrow> arc_path g' J as = arc_path g J as"
  by (induction as arbitrary: J) (auto simp: gp_IsArc_def gp_GetNextArc_def)

lemma arc_path_back_cong2:
  "E g' = E g \<Longrightarrow> arc_path_back g' J as = arc_path_back g J as"
  by (induction as arbitrary: J) (auto simp: gp_IsArc_def gp_GetPrevArc_def)

lemma extFace_E: "E (MergeBicomps_extFace g R Rout Z ZPrevLink) = E g"
  by (simp add: MergeBicomps_extFace_def Let_def gp_SetExtFaceVertex_def)

lemma extFace_first: "gp_GetFirstArc (MergeBicomps_extFace g R Rout Z ZPrevLink) v = gp_GetFirstArc g v"
  by (simp add: MergeBicomps_extFace_def Let_def gp_SetExtFaceVertex_def gp_GetFirstArc_def)

lemma extFace_last: "gp_GetLastArc (MergeBicomps_extFace g R Rout Z ZPrevLink) v = gp_GetLastArc g v"
  by (simp add: MergeBicomps_extFace_def Let_def gp_SetExtFaceVertex_def gp_GetLastArc_def)

lemma adjacencyList_extFace:
  "adjacencyList (MergeBicomps_extFace (g\<lparr>theStack := s\<rparr>) R Rout Z ZPrevLink) v as = adjacencyList g v as"
proof -
  let ?g1 = "MergeBicomps_extFace (g\<lparr>theStack := s\<rparr>) R Rout Z ZPrevLink"
  have e: "E ?g1 = E g" by (simp add: extFace_E)
  have f: "gp_GetFirstArc ?g1 v = gp_GetFirstArc g v"
    unfolding extFace_first by (simp add: gp_GetFirstArc_def)
  have l: "gp_GetLastArc ?g1 v = gp_GetLastArc g v"
    unfolding extFace_last by (simp add: gp_GetLastArc_def)
  show ?thesis
    unfolding adjacencyList_def f l arc_path_cong2[OF e] arc_path_back_cong2[OF e] ..
qed

text \<open>
  C5. Let the stack of \<^verbatim>\<open>_MergeBicomps\<close> hold, on top, the pair \<open>(R, Rout)\<close> above the
  pair \<open>(Z, ZPrevLink)\<close>, with \<open>ZPrevLink = Rout\<close>, and let the adjacency list of \<open>R\<close>
  be \<open>as\<close>. Then the first arc of \<open>R\<close> differs from its last arc exactly if \<open>as\<close> has
  more than one arc; the flip step of this pass of the loop returns \<open>1 XOR ZPrevLink\<close>
  for \<open>Rout\<close> and leaves \<open>R\<close> inverted only in that case, with the inversion flag
  reversed on the tree-child arc found first in the adjacency list of \<open>R\<close>; and the pass
  goes on from that graph to unlist the child and merge \<open>R\<close> into \<open>Z\<close>.
\<close>

theorem MergeBicomps_flip_opposed:
  assumes st: "items (theStack g) = Rout # R # ZPrevLink # Z # st"
    and eq: "ZPrevLink = Rout"
    and adj: "adjacencyList g R as"
  shows "(gp_GetFirstArc g R \<noteq> gp_GetLastArc g R) = (1 < length as) \<and>
    (let g1 = MergeBicomps_extFace (g\<lparr>theStack := (theStack g)\<lparr>items := st\<rparr>\<rparr>) R Rout Z ZPrevLink
     in MergeBicomps_flip g1 R Rout ZPrevLink = Some (1 XOR ZPrevLink, flipped g1 R as) \<and>
        MergeBicomps initVertexRec g I RootVertex W WPrevLink =
          MergeVertex initVertexRec (MergeBicomps_unlist (flipped g1 R as) R Z) Z ZPrevLink R \<bind>
            (\<lambda>g3. MergeBicomps initVertexRec g3 I RootVertex W WPrevLink))"
proof -
  let ?g1 = "MergeBicomps_extFace (g\<lparr>theStack := (theStack g)\<lparr>items := st\<rparr>\<rparr>) R Rout Z ZPrevLink"
  have adj1: "adjacencyList ?g1 R as" using adj by (simp add: adjacencyList_extFace)
  have fl: "MergeBicomps_flip ?g1 R Rout ZPrevLink = Some (1 XOR ZPrevLink, flipped ?g1 R as)"
    using MergeBicomps_flip_eq[OF eq adj1] by (simp add: flipped_def)
  have pop: "sp_Pop2 (theStack g) = Some (R, Rout, (theStack g)\<lparr>items := ZPrevLink # Z # st\<rparr>)"
    using st by (simp add: sp_Pop2_def sp_Pop_def)
  have pop2: "sp_Pop2 ((theStack g)\<lparr>items := ZPrevLink # Z # st\<rparr>)
                = Some (Z, ZPrevLink, (theStack g)\<lparr>items := st\<rparr>)"
    by (simp add: sp_Pop2_def sp_Pop_def)
  have ne: "sp_NonEmpty (theStack g)" using st by (simp add: sp_NonEmpty_def)
  have "MergeBicomps initVertexRec g I RootVertex W WPrevLink =
         MergeVertex initVertexRec (MergeBicomps_unlist (flipped ?g1 R as) R Z) Z ZPrevLink R \<bind>
           (\<lambda>g3. MergeBicomps initVertexRec g3 I RootVertex W WPrevLink)"
    by (subst MergeBicomps.simps) (simp add: ne pop pop2 fl)
  with fl adjacencyList_first_last[OF adj] show ?thesis by (simp add: Let_def)
qed

theorem MergeBicomps_flip_opposed_witness:
  "items (theStack mergeExample) = [1, 5, 1, 1] \<and>
   adjacencyList mergeExample 5 [10, 12] \<and>
   gp_GetFirstArc mergeExample 5 \<noteq> gp_GetLastArc mergeExample 5 \<and>
   (\<exists>g'. MergeBicomps_flip
            (MergeBicomps_extFace (mergeExample\<lparr>theStack := (theStack mergeExample)\<lparr>items := []\<rparr>\<rparr>)
               5 1 1 1) 5 1 1 = Some (0, g') \<and>
      gp_GetFirstArc g' 5 = 12 \<and> gp_GetLastArc g' 5 = 10 \<and>
      gp_GetNextArc g' 12 = 10 \<and> gp_GetNextArc g' 10 = NIL \<and>
      gp_GetEdgeFlagInverted g' 10 \<and> \<not> gp_GetEdgeFlagInverted g' 12)"
proof -
  have st: "items (theStack mergeExample) = 1 # 5 # 1 # 1 # []"
    by (simp add: mergeExample_def example_defs)
  have adj: "adjacencyList mergeExample 5 [10, 12]"
    by (simp add: adjacencyList_def mergeExample_def example_defs gp_vertex_defs gp_arc_defs)
  have x: "(1::int) XOR 1 = 0" by simp
  show ?thesis
    using st adj MergeBicomps_flip_opposed[OF st refl adj]
    by (simp add: Let_def x flipped_def xorFirstChild_def invertedAt_def swapLinks_def
          MergeBicomps_extFace_def mergeExample_def example_defs gp_vertex_defs gp_arc_defs)
qed

subsection \<open>Walkdown: the short-circuit of the external face\<close>









subsection \<open>Initialisation: the lowpoint pass\<close>

lemma lowpoint_children_path:
  "LC_path (sortedDFSChildLists g) (gp_GetVertexSortedDFSChildList g I) child cs \<Longrightarrow>
   lowpoint_children g I child leastValue =
     Some (Min (insert leastValue (gp_GetVertexLowpoint g ` set cs)))"
proof (induction cs arbitrary: child leastValue)
  case Nil
  then show ?case by (subst lowpoint_children.simps) simp
next
  case (Cons c cs)
  have m: "Min (insert (min leastValue (gp_GetVertexLowpoint g c)) (gp_GetVertexLowpoint g ` set cs))
         = Min (insert leastValue (gp_GetVertexLowpoint g ` set (c # cs)))"
    by (cases "cs = []") (simp_all add: min.assoc)
  from Cons.prems have c: "child = c" "child \<noteq> NIL"
    and p: "LC_path (sortedDFSChildLists g) (gp_GetVertexSortedDFSChildList g I)
              (LCGetNext (sortedDFSChildLists g) (gp_GetVertexSortedDFSChildList g I) child) cs"
    by auto
  have "lowpoint_children g I child leastValue =
        lowpoint_children g I
          (LCGetNext (sortedDFSChildLists g) (gp_GetVertexSortedDFSChildList g I) child)
          (min leastValue (gp_GetVertexLowpoint g c))"
    using c by (subst lowpoint_children.simps) (auto simp: Let_def min_def)
  then show ?case by (simp only: Cons.IH[OF p] m)
qed

lemma lowpoint_pass_frame:
  "lowpoint_pass g K = Some g' \<Longrightarrow>
     sortedDFSChildLists g' = sortedDFSChildLists g \<and>
     (\<forall>v. gp_GetVertexSortedDFSChildList g' v = gp_GetVertexSortedDFSChildList g v) \<and>
     (\<forall>v. gp_GetVertexLeastAncestor g' v = gp_GetVertexLeastAncestor g v) \<and>
     (\<forall>v. K < v \<longrightarrow> gp_GetVertexLowpoint g' v = gp_GetVertexLowpoint g v)"
proof (induction g K arbitrary: g' rule: lowpoint_pass.induct)
  case (1 g I)
  show ?case
  proof (cases "I \<ge> 0")
    case False
    with "1.prems" show ?thesis by (subst (asm) lowpoint_pass.simps) simp
  next
    case True
    note st = "1.prems"[unfolded lowpoint_pass.simps[of g I]]
    with True obtain lv where
      lv: "lowpoint_children g I (gp_GetVertexSortedDFSChildList g I) I = Some lv"
      by (auto simp: bind_eq_Some_conv simp del: lowpoint_pass.simps)
    define lv' where "lv' = (if lv > gp_GetVertexLeastAncestor g I
                            then gp_GetVertexLeastAncestor g I else lv)"
    from st True lv have r: "lowpoint_pass (gp_SetVertexLowpoint g I lv') (I - 1) = Some g'"
      by (simp add: lv'_def del: lowpoint_pass.simps)
    from "1.IH"[OF True lv lv'_def r] show ?thesis
      by (auto simp: gp_vertex_defs simp del: lowpoint_pass.simps)
  qed
qed

lemma sortedChildren_frame:
  "sortedDFSChildLists g' = sortedDFSChildLists g \<Longrightarrow>
   \<forall>v. gp_GetVertexSortedDFSChildList g' v = gp_GetVertexSortedDFSChildList g v \<Longrightarrow>
   sortedChildren g' I cs = sortedChildren g I cs"
  by (simp add: sortedChildren_def)

lemma lowpoint_pass_equation:
  "lowpoint_pass g K = Some g' \<Longrightarrow> 0 \<le> I \<Longrightarrow> I \<le> K \<Longrightarrow> sortedChildren g I cs \<Longrightarrow>
   \<forall>c\<in>set cs. I < c \<Longrightarrow>
   gp_GetVertexLowpoint g' I =
     Min ({I, gp_GetVertexLeastAncestor g I} \<union> gp_GetVertexLowpoint g' ` set cs)"
proof (induction g K arbitrary: g' rule: lowpoint_pass.induct)
  case (1 g K)
  from "1.prems" have K: "K \<ge> 0" by simp
  note st = "1.prems"(1)[unfolded lowpoint_pass.simps[of g K]]
  with K obtain lv where
    lv: "lowpoint_children g K (gp_GetVertexSortedDFSChildList g K) K = Some lv"
    by (auto simp: bind_eq_Some_conv simp del: lowpoint_pass.simps)
  define lv' where "lv' = (if lv > gp_GetVertexLeastAncestor g K
                          then gp_GetVertexLeastAncestor g K else lv)"
  define g1 where "g1 = gp_SetVertexLowpoint g K lv'"
  from st K lv have r: "lowpoint_pass g1 (K - 1) = Some g'"
    by (simp add: lv'_def g1_def del: lowpoint_pass.simps)
  note fr = lowpoint_pass_frame[OF r]
  have ch: "sortedChildren g1 I cs"
    using "1.prems"(4) by (auto simp: sortedChildren_def g1_def gp_vertex_defs)
  show ?case
  proof (cases "I = K")
    case False
    with "1.prems" have "I \<le> K - 1" by simp
    from "1.IH"[OF K lv lv'_def r[unfolded g1_def] "1.prems"(2) this ch[unfolded g1_def] "1.prems"(5)]
    show ?thesis by (simp add: gp_vertex_defs del: lowpoint_pass.simps)
  next
    case True
    from "1.prems"(4) True
    have "LC_path (sortedDFSChildLists g) (gp_GetVertexSortedDFSChildList g K)
            (gp_GetVertexSortedDFSChildList g K) cs"
      by (simp add: sortedChildren_def)
    from lowpoint_children_path[OF this, of K] lv
    have "lv = Min (insert K (gp_GetVertexLowpoint g ` set cs))" by simp
    moreover have "gp_GetVertexLowpoint g' K = lv'"
      using fr by (simp add: g1_def gp_vertex_defs)
    moreover have "\<forall>c\<in>set cs. gp_GetVertexLowpoint g' c = gp_GetVertexLowpoint g c"
      using fr "1.prems"(5) True by (auto simp: g1_def gp_vertex_defs)
    then have "gp_GetVertexLowpoint g' ` set cs = gp_GetVertexLowpoint g ` set cs"
      by (auto simp: image_iff)
    moreover have "lv' = min lv (gp_GetVertexLeastAncestor g K)"
      by (simp add: lv'_def min_def)
    ultimately show ?thesis using True
      by (cases "cs = []") (simp_all add: min.commute min.left_commute)
  qed
qed


lemma treeEmbedding_frame:
  "treeEmbedding g n I = g' \<Longrightarrow>
   sortedDFSChildLists g' = sortedDFSChildLists g \<and>
   (\<forall>v. gp_GetVertexSortedDFSChildList g' v = gp_GetVertexSortedDFSChildList g v) \<and>
   (\<forall>v. gp_GetVertexLeastAncestor g' v = gp_GetVertexLeastAncestor g v) \<and>
   (\<forall>v. gp_GetVertexLowpoint g' v = gp_GetVertexLowpoint g v)"
proof (induction g n I arbitrary: g' rule: treeEmbedding.induct)
  case (1 g n I)
  note st = "1.prems"[unfolded treeEmbedding.simps[of g n I]]
  show ?case
  proof (cases "I < n")
    case False
    with st show ?thesis by (simp del: treeEmbedding.simps)
  next
    case True
    show ?thesis
    proof (cases "gp_GetVertexParent g I = NIL")
      case p: True
      from st True p have
        "treeEmbedding (gp_SetLastArc (gp_SetFirstArc g I (gp_AdjacencyListEndMark I)) I
           (gp_AdjacencyListEndMark I)) n (I + 1) = g'"
        by (simp add: Let_def del: treeEmbedding.simps)
      from "1.IH"(1)[OF True refl p refl refl this] show ?thesis
        by (simp add: gp_vertex_defs del: treeEmbedding.simps)
    next
      case p: False
      from st True p have "treeEmbedding
         (let R = I + n; J = gp_GetFirstArc g R;
                g1 = gp_SetPrevArc g J (gp_AdjacencyListEndMark I);
                g2 = gp_SetNextArc g1 J (gp_AdjacencyListEndMark I);
                JTwin = gp_GetTwinArc g2 J;
                g3 = gp_SetNeighbor g2 JTwin R;
                g4 = gp_SetFirstArc g3 I JTwin;
                g5 = gp_SetLastArc g4 I JTwin;
                g6 = gp_SetPrevArc g5 JTwin (gp_AdjacencyListEndMark I);
                g7 = gp_SetNextArc g6 JTwin (gp_AdjacencyListEndMark I);
                g8 = gp_SetExtFaceVertex g7 R 0 I;
                g9 = gp_SetExtFaceVertex g8 R 1 I;
                g10 = gp_SetExtFaceVertex g9 I 0 R
          in gp_SetExtFaceVertex g10 I 1 R) n (I + 1) = g'"
        by (simp add: Let_def del: treeEmbedding.simps)
      from "1.IH"(2)[OF True refl p refl refl refl refl refl refl refl refl refl refl refl refl refl
             this[unfolded Let_def]]
      show ?thesis
        by (simp add: gp_vertex_defs gp_SetNeighbor_def gp_SetNextArc_def gp_SetPrevArc_def
                 del: treeEmbedding.simps)
    qed
  qed
qed

text \<open>
  What the pass computes, whatever the values of \<open>leastAncestor\<close> it finds: after
  \<^verbatim>\<open>_EmbeddingInitialize\<close> has returned \<open>OK\<close>, a vertex \<open>I\<close> of \<open>[0, N)\<close> whose sorted DFS
  child list is \<open>cs\<close>, all of them numbered above \<open>I\<close>, has
  \<open>lowpoint(I) = min(I, leastAncestor(I), min of lowpoint(C) for C in cs)\<close>: the pass starts
  the minimum of every vertex at \<open>I\<close> itself. The depth-first search only lowers
  \<open>leastAncestor\<close>; the value from which it starts is that of the vertex initialiser,
  which is not in \<^verbatim>\<open>graphEmbed.c\<close>.
\<close>

lemma EmbeddingInitialize_lowpoint_pass:
  assumes "EmbeddingInitialize ft g = Some (OK, g')"
    and "0 \<le> I" and "I < N g"
    and "sortedChildren g' I cs" and "\<forall>c\<in>set cs. I < c"
  shows "gp_GetVertexLowpoint g' I =
           Min ({I, gp_GetVertexLeastAncestor g' I} \<union> gp_GetVertexLowpoint g' ` set cs)"
proof -
  obtain r g5 where
    s: "gp_SortVertices ft ((the (DFS_components (ClearVertexVisitedFlags
          (g\<lparr>theStack := sp_ClearStack (theStack g)\<rparr>) False) (N g) 0 0))
          \<lparr>internalFlags := internalFlags (the (DFS_components (ClearVertexVisitedFlags
          (g\<lparr>theStack := sp_ClearStack (theStack g)\<rparr>) False) (N g) 0 0)) \<union> {FLAGS_DFSNUMBERED}\<rparr>)
        = (r, g5)"
    by (cases "gp_SortVertices ft ((the (DFS_components (ClearVertexVisitedFlags
          (g\<lparr>theStack := sp_ClearStack (theStack g)\<rparr>) False) (N g) 0 0))
          \<lparr>internalFlags := internalFlags (the (DFS_components (ClearVertexVisitedFlags
          (g\<lparr>theStack := sp_ClearStack (theStack g)\<rparr>) False) (N g) 0 0)) \<union> {FLAGS_DFSNUMBERED}\<rparr>)")
  with assms(1) obtain g6 where
    p: "lowpoint_pass g5 (N g - 1) = Some g6" and t: "treeEmbedding g6 (N g) 0 = g'"
    by (auto simp: EmbeddingInitialize_def Let_def bind_eq_Some_conv
             simp del: lowpoint_pass.simps treeEmbedding.simps
             split: if_splits)
  note tf = treeEmbedding_frame[OF t]
  note pf = lowpoint_pass_frame[OF p]
  from assms(4) tf pf have ch: "sortedChildren g5 I cs"
    by (simp add: sortedChildren_def)
  from assms(3) have "I \<le> N g - 1" by simp
  from lowpoint_pass_equation[OF p assms(2) this ch assms(5)] tf pf
  show ?thesis by simp
qed

subsection \<open>The embedder: a blocked iteration\<close>

lemma Embed_iterations_loop:
  "Embed_iterations ft g0 n K I = Some g \<Longrightarrow> 0 \<le> I \<Longrightarrow> I \<le> K \<Longrightarrow>
   Embed_loop ft g0 n K r0 = Embed_loop ft g n I r"
proof (induction ft g0 n K I arbitrary: r0 rule: Embed_iterations.induct)
  case (1 ft g0 n K I)
  note st = "1.prems"(1)[unfolded Embed_iterations.simps[of ft g0 n K I]]
  show ?case
  proof (cases "I < K")
    case False
    with st "1.prems"(3) have "g = g0" "K = I" by (simp_all del: Embed_iterations.simps)
    with "1.prems"(2) show ?thesis
      by (simp add: Embed_loop.simps[of ft g0 n I] del: Embed_iterations.simps Embed_loop.simps)
  next
    case True
    with st obtain x where x: "Embed_iteration ft g0 n K = Some x"
      and c: "(case x of Inl ret \<Rightarrow> None
               | Inr (RetVal, g1, brk) \<Rightarrow>
                   if brk then None else Embed_iterations ft g1 n (K - 1) I) = Some g"
      by (auto simp: bind_eq_Some_conv simp del: Embed_iterations.simps)
    from c obtain y where y: "x = Inr y"
      by (cases x) (simp_all del: Embed_iterations.simps)
    obtain RetVal g1 brk where z: "y = (RetVal, g1, brk)"
      by (rule prod_cases3)
    from c y z have "\<not> brk" and rest: "Embed_iterations ft g1 n (K - 1) I = Some g"
      by (simp_all del: Embed_iterations.simps split: if_splits)
    with x y z have it: "Embed_iteration ft g0 n K = Some (Inr (RetVal, g1, False))"
      by simp
    from True have "I \<le> K - 1" by simp
    have nf: "\<not> False" by simp
    from "1.IH"[OF True it refl refl refl nf rest "1.prems"(2) \<open>I \<le> K - 1\<close>, of RetVal]
    have "Embed_loop ft g1 n (K - 1) RetVal = Embed_loop ft g n I r"
      by (simp del: Embed_iterations.simps Embed_loop.simps)
    moreover from True "1.prems"(2) it
    have "Embed_loop ft g0 n K r0 = Embed_loop ft g1 n (K - 1) RetVal"
      by (subst Embed_loop.simps) (simp del: Embed_iterations.simps Embed_loop.simps)
    ultimately show ?thesis by simp
  qed
qed

text \<open>
  C8: in the iteration of \<^verbatim>\<open>gp_Embed\<close> for a vertex \<open>I\<close>, once the Walkups and Walkdowns
  have come back and the pertinent bicomp list of \<open>I\<close> is cleared, if the forward arc list
  of \<open>I\<close> is not empty or the Walkdowns gave \<open>NONEMBEDDABLE\<close>, the result of the iteration
  is that of the blocked-iteration handler of the function table. The core handler returns
  \<open>NONEMBEDDABLE\<close> whatever the state; with it the loop stops at \<open>I\<close>, and \<^verbatim>\<open>gp_Embed\<close>,
  when its loop arrives at this iteration, calls the postprocessing with \<open>I\<close> and
  \<open>NONEMBEDDABLE\<close> and returns what it returns.
\<close>

theorem gp_Embed_blocked_iteration:
  assumes "0 \<le> I" and "I < n"
    and "Embed_walkups ft (gp_SetVertexVisitedInfo g I n) I
           (gp_GetVertexFwdArcList (gp_SetVertexVisitedInfo g I n) I) = Some g2"
    and "Embed_walkdowns ft g2 n I (gp_GetVertexSortedDFSChildList g2 I) OK
           = Some (Inr (RetVal, g3))"
    and "g4 = gp_SetVertexPertinentBicompList g3 I NIL"
    and "gp_GetVertexFwdArcList g4 I \<noteq> NIL \<or> RetVal = NONEMBEDDABLE"
  shows "Embed_iteration ft g n I =
           (case fpHandleBlockedEmbedIteration ft g4 I of
              (RetVal', g5) \<Rightarrow> Some (Inr (RetVal', g5, RetVal' \<noteq> OK))) \<and>
         HandleBlockedEmbedIteration g4 I = (NONEMBEDDABLE, g4) \<and>
         (fpHandleBlockedEmbedIteration ft = HandleBlockedEmbedIteration \<longrightarrow>
            Embed_loop ft g n I r = Some (Inr (I, NONEMBEDDABLE, g4)) \<and>
            (\<forall>g0 flags gi gs.
               EmbeddingInitialize ft (g0\<lparr>embedFlags := flags\<rparr>) = Some (OK, gi) \<longrightarrow>
               CreateSortedSeparatedDFSChildLists gi = Some gs \<longrightarrow>
               N g0 = n \<longrightarrow>
               Embed_iterations ft gs n (n - 1) I = Some g \<longrightarrow>
               gp_Embed ft (Some g0) flags =
                 do {
                   (ret, g5) \<leftarrow> fpEmbedPostprocess ft g4 I NONEMBEDDABLE;
                   Some (ret, Some g5)
                 }))"
proof -
  from assms(3-6) have it: "Embed_iteration ft g n I =
           (case fpHandleBlockedEmbedIteration ft g4 I of
              (RetVal', g5) \<Rightarrow> Some (Inr (RetVal', g5, RetVal' \<noteq> OK)))"
    by (simp add: Embed_iteration_def Let_def)
  have lp: "Embed_loop ft g n I r = Some (Inr (I, NONEMBEDDABLE, g4))"
    if h: "fpHandleBlockedEmbedIteration ft = HandleBlockedEmbedIteration" for r
    using assms(1) it h
    by (subst Embed_loop.simps) (simp add: HandleBlockedEmbedIteration_def del: Embed_loop.simps)
  have "gp_Embed ft (Some g0) flags =
                 do {
                   (ret, g5) \<leftarrow> fpEmbedPostprocess ft g4 I NONEMBEDDABLE;
                   Some (ret, Some g5)
                 }"
    if h: "fpHandleBlockedEmbedIteration ft = HandleBlockedEmbedIteration"
      and i: "EmbeddingInitialize ft (g0\<lparr>embedFlags := flags\<rparr>) = Some (OK, gi)"
      and c: "CreateSortedSeparatedDFSChildLists gi = Some gs"
      and n: "N g0 = n"
      and a: "Embed_iterations ft gs n (n - 1) I = Some g"
    for g0 flags gi gs
  proof -
    from assms(2) have "I \<le> n - 1" by simp
    from Embed_iterations_loop[OF a assms(1) this, of OK OK] lp[OF h, of OK]
    have "Embed_loop ft gs n (n - 1) OK = Some (Inr (I, NONEMBEDDABLE, g4))" by simp
    with i c n show ?thesis
      by (simp add: gp_Embed_def Let_def del: Embed_loop.simps)
  qed
  with it lp show ?thesis
    by (simp add: HandleBlockedEmbedIteration_def del: Embed_loop.simps Embed_iterations.simps)
qed

theorem gp_Embed_blocked_iteration_witness:
  "\<exists>gi gs g g2 RetVal g3.
     EmbeddingInitialize coreFunctions (K5\<lparr>embedFlags := 1\<rparr>) = Some (OK, gi) \<and>
     CreateSortedSeparatedDFSChildLists gi = Some gs \<and>
     Embed_iterations coreFunctions gs 5 4 1 = Some g \<and>
     Embed_walkups coreFunctions (gp_SetVertexVisitedInfo g 1 5) 1
       (gp_GetVertexFwdArcList (gp_SetVertexVisitedInfo g 1 5) 1) = Some g2 \<and>
     Embed_walkdowns coreFunctions g2 5 1 (gp_GetVertexSortedDFSChildList g2 1) OK
       = Some (Inr (RetVal, g3)) \<and>
     gp_GetVertexFwdArcList (gp_SetVertexPertinentBicompList g3 1 NIL) 1 \<noteq> NIL \<and>
     Embed_loop coreFunctions g 5 1 OK
       = Some (Inr (1, NONEMBEDDABLE, gp_SetVertexPertinentBicompList g3 1 NIL)) \<and>
     gp_Embed coreFunctions (Some K5) 1
       = Some (NONEMBEDDABLE, Some (gp_SetVertexPertinentBicompList g3 1 NIL))"
proof -
  have "\<exists>gi. EmbeddingInitialize coreFunctions (K5\<lparr>embedFlags := 1\<rparr>) = Some (OK, gi) \<and>
     (\<exists>gs. CreateSortedSeparatedDFSChildLists gi = Some gs \<and>
     (\<exists>g. Embed_iterations coreFunctions gs 5 4 1 = Some g \<and>
     (\<exists>g2. Embed_walkups coreFunctions (gp_SetVertexVisitedInfo g 1 5) 1
       (gp_GetVertexFwdArcList (gp_SetVertexVisitedInfo g 1 5) 1) = Some g2 \<and>
     (\<exists>RetVal g3. Embed_walkdowns coreFunctions g2 5 1 (gp_GetVertexSortedDFSChildList g2 1) OK
       = Some (Inr (RetVal, g3)) \<and>
     gp_GetVertexFwdArcList (gp_SetVertexPertinentBicompList g3 1 NIL) 1 \<noteq> NIL))))"
    by (simp add: eval_defs cong: eval_congs del: prod.case case_prod_conv)
  then obtain gi gs g g2 RetVal g3 where
    i: "EmbeddingInitialize coreFunctions (K5\<lparr>embedFlags := 1\<rparr>) = Some (OK, gi)"
    and c: "CreateSortedSeparatedDFSChildLists gi = Some gs"
    and a: "Embed_iterations coreFunctions gs 5 4 1 = Some g"
    and u: "Embed_walkups coreFunctions (gp_SetVertexVisitedInfo g 1 5) 1
       (gp_GetVertexFwdArcList (gp_SetVertexVisitedInfo g 1 5) 1) = Some g2"
    and d: "Embed_walkdowns coreFunctions g2 5 1 (gp_GetVertexSortedDFSChildList g2 1) OK
       = Some (Inr (RetVal, g3))"
    and f: "gp_GetVertexFwdArcList (gp_SetVertexPertinentBicompList g3 1 NIL) 1 \<noteq> NIL"
    by blast
  have n: "N K5 = 5"
    by (simp add: eval_defs cong: eval_congs del: prod.case case_prod_conv)
  from f have f': "gp_GetVertexFwdArcList (gp_SetVertexPertinentBicompList g3 1 NIL) 1 \<noteq> NIL
     \<or> RetVal = NONEMBEDDABLE" by simp
  note t = gp_Embed_blocked_iteration[of 1 5 coreFunctions g g2 RetVal g3
      "gp_SetVertexPertinentBicompList g3 1 NIL" OK, OF _ _ u d refl f']
  from t i c a n have
    "Embed_loop coreFunctions g 5 1 OK
       = Some (Inr (1, NONEMBEDDABLE, gp_SetVertexPertinentBicompList g3 1 NIL))"
    and "gp_Embed coreFunctions (Some K5) 1
       = Some (NONEMBEDDABLE, Some (gp_SetVertexPertinentBicompList g3 1 NIL))"
    by (simp_all add: coreFunctions_sel passResult_def del: Embed_loop.simps Embed_iterations.simps)
  with i c a u d f show ?thesis by blast
qed

subsection \<open>Walkup: recording a pertinent bicomp\<close>

lemma LC_links_last:
  "LC_links lc first ys \<Longrightarrow> ys \<noteq> [] \<Longrightarrow> lc_prev (lc first) = last ys"
  by (induction lc first ys rule: LC_links.induct) auto

lemma LC_links_relink:
  "LC_links lc h ys \<Longrightarrow> ys \<noteq> [] \<Longrightarrow> distinct ys \<Longrightarrow> c \<notin> set ys \<Longrightarrow> h \<notin> set (tl ys) \<Longrightarrow>
   \<forall>x. lc_next (lc' x) = (if x = last ys then c else if x = c then h else lc_next (lc x)) \<Longrightarrow>
   \<forall>x. lc_prev (lc' x) = (if x = h then c else if x = c then last ys else lc_prev (lc x)) \<Longrightarrow>
   c \<noteq> h \<Longrightarrow>
   LC_links lc' c ys"
proof (induction lc h ys rule: LC_links.induct)
  case (1 lc first)
  then show ?case by simp
next
  case (2 lc first x)
  then show ?case by simp
next
  case (3 lc first x y ys)
  from "3.prems" have "LC_links lc' c (y # ys)"
    by (intro "3.IH") auto
  moreover from "3.prems" have "lc_next (lc' x) = y" "lc_prev (lc' y) = x"
    by auto
  ultimately show ?case by simp
qed

lemma LC_links_snoc:
  "LC_links lc c ys \<Longrightarrow> ys \<noteq> [] \<Longrightarrow> lc_next (lc c) = h \<Longrightarrow> lc_prev (lc h) = c \<Longrightarrow>
   LC_links lc h (ys @ [c])"
  by (induction lc c ys rule: LC_links.induct) auto

lemma LCAppend_links:
  assumes "theList \<noteq> NIL" and "LCAppend lc theList c = (h', lc')"
    and "c \<noteq> theList" and "c \<noteq> lc_prev (lc theList)"
  shows "h' = theList"
    and "\<forall>x. lc_next (lc' x) = (if x = lc_prev (lc theList) then c else if x = c then theList
                                 else lc_next (lc x))"
    and "\<forall>x. lc_prev (lc' x) = (if x = theList then c else if x = c then lc_prev (lc theList)
                                 else lc_prev (lc x))"
  using assms by (auto simp: LCAppend_def Let_def)

lemma LC_list_append:
  assumes "LC_list lc theList xs" and "c \<notin> set xs" and "c \<noteq> NIL"
    and "LCAppend lc theList c = (h', lc')"
  shows "LC_list lc' h' (xs @ [c]) \<and> LC_list lc' (lc_prev (lc' h')) (c # xs)"
proof (cases "xs = []")
  case True
  with assms show ?thesis
    by (auto simp: LC_list_def LCAppend_def)
next
  case False
  with assms(1) have h: "theList = hd xs" "NIL \<notin> set xs" "distinct xs"
    and l: "LC_links lc theList xs"
    by (auto simp: LC_list_def)
  from h False have hn: "theList \<noteq> NIL" "theList \<in> set xs" by (metis hd_in_set)+
  from LC_links_last[OF l False] have p: "lc_prev (lc theList) = last xs" .
  with False assms(2) hn have ne: "c \<noteq> theList" "c \<noteq> lc_prev (lc theList)"
    by auto
  note a = LCAppend_links[OF hn(1) assms(4) ne]
  from h False have "theList \<notin> set (tl xs)"
    by (cases xs) auto
  from LC_links_relink[OF l False h(3) assms(2) this a(2)[unfolded p] a(3)[unfolded p] ne(1)]
  have r: "LC_links lc' c xs" .
  from a have nc: "lc_next (lc' c) = theList" and ph: "lc_prev (lc' theList) = c"
    using ne by auto
  from LC_links_snoc[OF r False nc ph] h assms(2,3) False a(1)
  have "LC_list lc' h' (xs @ [c])"
    by (auto simp: LC_list_def)
  moreover from r nc ph h assms(2,3) False a(1)
  have "LC_list lc' (lc_prev (lc' h')) (c # xs)"
    by (cases xs) (auto simp: LC_list_def)
  ultimately show ?thesis by simp
qed

lemma LC_list_prepend:
  assumes "LC_list lc theList xs" and "c \<notin> set xs" and "c \<noteq> NIL"
    and "LCPrepend lc theList c = (h', lc')"
  shows "LC_list lc' h' (c # xs)"
proof -
  obtain h1 lc1 where a: "LCAppend lc theList c = (h1, lc1)"
    by (cases "LCAppend lc theList c")
  with assms(4) have "h' = lc_prev (lc1 h1)" "lc' = lc1"
    by (auto simp: LCPrepend_def)
  with LC_list_append[OF assms(1-3) a] show ?thesis by simp
qed

lemma LC_links_path:
  "LC_links lc h ys \<Longrightarrow> ys \<noteq> [] \<Longrightarrow> h \<notin> set (tl ys) \<Longrightarrow> NIL \<notin> set ys \<Longrightarrow>
   LC_path lc h (hd ys) ys"
  by (induction lc h ys rule: LC_links.induct) (auto simp: LCGetNext_def)

lemma LC_list_path:
  "LC_list lc theList xs \<Longrightarrow> LC_path lc theList theList xs"
proof (cases "xs = []")
  case True
  assume "LC_list lc theList xs"
  with True show ?thesis by (simp add: LC_list_def)
next
  case False
  assume a: "LC_list lc theList xs"
  with False have "theList \<notin> set (tl xs)" by (cases xs) (auto simp: LC_list_def)
  with a False LC_links_path[of lc theList xs] show ?thesis by (auto simp: LC_list_def)
qed

lemma internalFirst_insert:
  "internalFirst g I xs \<Longrightarrow>
   internalFirst g I (if gp_GetVertexLowpoint g c < I then xs @ [c] else c # xs)"
  by (auto simp: internalFirst_def)


lemma WalkUp_next_root:
  "WalkUp_next g I Zig Zag ZigPrevLink ZagPrevLink = Some (nextZig, nextZag, R) \<Longrightarrow>
   R \<noteq> NIL \<Longrightarrow> N g \<le> R"
  by (auto simp: WalkUp_next_def Let_def split: if_splits)

text \<open>
  C3. When the loop of \<^verbatim>\<open>_WalkUp\<close> finds a bicomp root \<open>R\<close> next to \<open>Zig\<close> or \<open>Zag\<close> and
  does not break, it puts the DFS child \<open>c = R - N\<close> on the pertinent bicomp list of the
  parent copy, the parent of \<open>c\<close>, and goes on from the parent copy. For a list that holds
  \<open>xs\<close>, without \<open>c\<close>, the list then holds \<open>c # xs\<close> if \<open>lowpoint(c) \<ge> I\<close> (prepended) and
  \<open>xs @ [c]\<close> if \<open>lowpoint(c) < I\<close> (appended); the traversal with \<^verbatim>\<open>LCGetNext\<close> from the
  head meets the items in this order; and if the internally active roots came before the
  externally active ones in \<open>xs\<close>, they still do.
\<close>

theorem WalkUp_records_bicomp:
  assumes "Zig \<noteq> I"
    and "WalkUp_next g I Zig Zag ZigPrevLink ZagPrevLink = Some (nextZig, nextZag, R)"
    and "R \<noteq> NIL"
    and "c = R - N g" and "ParentCopy = gp_GetVertexParent g c"
    and "LC_list (BicompLists g) (gp_GetVertexPertinentBicompList g ParentCopy) xs"
    and "c \<notin> set xs"
    and "g2 = gp_SetVertexVisitedInfo (gp_SetVertexVisitedInfo g Zig I) Zag I"
    and "xs' = (if gp_GetVertexLowpoint g c < I then xs @ [c] else c # xs)"
  shows "\<exists>g3. WalkUp_record g2 I R = (g3, ParentCopy) \<and>
           WalkUp_loop g I Zig Zag ZigPrevLink ZagPrevLink
             = WalkUp_loop g3 I ParentCopy ParentCopy 1 0 \<and>
           LC_list (BicompLists g3) (gp_GetVertexPertinentBicompList g3 ParentCopy) xs' \<and>
           LC_path (BicompLists g3) (gp_GetVertexPertinentBicompList g3 ParentCopy)
             (gp_GetVertexPertinentBicompList g3 ParentCopy) xs' \<and>
           (internalFirst g I xs \<longrightarrow> internalFirst g3 I xs')"
proof -
  from WalkUp_next_root[OF assms(2,3)] assms(4) have cn: "c \<noteq> NIL"
    by (simp add: NIL_def)
  have f: "N g2 = N g" "BicompLists g2 = BicompLists g"
    "gp_GetVertexParent g2 = gp_GetVertexParent g"
    "gp_GetVertexPertinentBicompList g2 = gp_GetVertexPertinentBicompList g"
    "gp_GetVertexLowpoint g2 = gp_GetVertexLowpoint g"
    by (auto simp: assms(8) gp_vertex_defs fun_eq_iff)
  obtain h' lc' where
    ins: "(if gp_GetVertexLowpoint g c < I
           then LCAppend (BicompLists g) (gp_GetVertexPertinentBicompList g ParentCopy) c
           else LCPrepend (BicompLists g) (gp_GetVertexPertinentBicompList g ParentCopy) c)
          = (h', lc')"
    by (cases "if gp_GetVertexLowpoint g c < I
           then LCAppend (BicompLists g) (gp_GetVertexPertinentBicompList g ParentCopy) c
           else LCPrepend (BicompLists g) (gp_GetVertexPertinentBicompList g ParentCopy) c")
  define g3 where "g3 = gp_SetVertexPertinentBicompList (g2\<lparr>BicompLists := lc'\<rparr>) ParentCopy h'"
  from ins have r: "WalkUp_record g2 I R = (g3, ParentCopy)"
    by (auto simp: WalkUp_record_def Let_def f g3_def assms(4,5)[symmetric] split: if_splits)
  from assms(1,2,3) r have l: "WalkUp_loop g I Zig Zag ZigPrevLink ZagPrevLink
             = WalkUp_loop g3 I ParentCopy ParentCopy 1 0"
    by (subst WalkUp_loop.simps) (simp add: Let_def assms(8)[symmetric])
  have g3f: "BicompLists g3 = lc'" "gp_GetVertexPertinentBicompList g3 ParentCopy = h'"
    "gp_GetVertexLowpoint g3 = gp_GetVertexLowpoint g"
    by (auto simp: g3_def assms(8) gp_vertex_defs fun_eq_iff)
  have ll: "LC_list lc' h' xs'"
  proof (cases "gp_GetVertexLowpoint g c < I")
    case True
    with ins LC_list_append[OF assms(6,7) cn, of h' lc'] assms(9) show ?thesis by simp
  next
    case False
    with ins LC_list_prepend[OF assms(6,7) cn, of h' lc'] assms(9) show ?thesis by simp
  qed
  have "internalFirst g3 I xs'" if "internalFirst g I xs"
    using internalFirst_insert[OF that, of c] g3f(3) assms(9)
    by (simp add: internalFirst_def)
  with r l ll LC_list_path[OF ll] g3f show ?thesis by simp
qed

theorem WalkUp_records_bicomp_witness:
  "\<exists>g g3. twoBranchesWalkedUp = Some g \<and>
     WalkUp_next g 1 4 4 1 0 = Some (9, 4, 9) \<and>
     LC_list (BicompLists g) (gp_GetVertexPertinentBicompList g 2) [3] \<and>
     gp_GetVertexLowpoint g 4 < 1 \<and>
     WalkUp_record (gp_SetVertexVisitedInfo (gp_SetVertexVisitedInfo g 4 1) 4 1) 1 9 = (g3, 2) \<and>
     WalkUp_loop g 1 4 4 1 0 = WalkUp_loop g3 1 2 2 1 0 \<and>
     LC_list (BicompLists g3) (gp_GetVertexPertinentBicompList g3 2) [3, 4] \<and>
     internalFirst g3 1 [3, 4]"
proof -
  have "case twoBranchesWalkedUp of
          None \<Rightarrow> False
        | Some g \<Rightarrow>
            WalkUp_next g 1 4 4 1 0 = Some (9, 4, 9) \<and> 4 = 9 - N g \<and>
            2 = gp_GetVertexParent g 4 \<and>
            LC_list (BicompLists g) (gp_GetVertexPertinentBicompList g 2) [3] \<and>
            gp_GetVertexLowpoint g 4 < 1 \<and> internalFirst g 1 [3]"
    by (simp add: eval_defs twoBranches_def twoBranchesWalkedUp_def LC_list_def internalFirst_def
          cong: eval_congs del: prod.case case_prod_conv)
  then obtain g where g: "twoBranchesWalkedUp = Some g"
    and n: "WalkUp_next g 1 4 4 1 0 = Some (9, 4, 9)"
    and c: "4 = 9 - N g" "2 = gp_GetVertexParent g 4"
    and l: "LC_list (BicompLists g) (gp_GetVertexPertinentBicompList g 2) [3]"
    and x: "gp_GetVertexLowpoint g 4 < 1"
    and i: "internalFirst g 1 [3]"
    by (auto split: option.splits)
  have "\<exists>g3. WalkUp_record (gp_SetVertexVisitedInfo (gp_SetVertexVisitedInfo g 4 1) 4 1) 1 9
             = (g3, 2) \<and>
           WalkUp_loop g 1 4 4 1 0 = WalkUp_loop g3 1 2 2 1 0 \<and>
           LC_list (BicompLists g3) (gp_GetVertexPertinentBicompList g3 2) [3, 4] \<and>
           internalFirst g3 1 [3, 4]"
    using WalkUp_records_bicomp[of 4 1 g 4 1 0 9 4 9 4 2 "[3]"
      "gp_SetVertexVisitedInfo (gp_SetVertexVisitedInfo g 4 1) 4 1" "[3, 4]", OF _ n _ c l] x i
    by (auto simp: NIL_def)
  with g n l x show ?thesis by blast
qed

subsection \<open>Initialisation: a back arc found by the depth-first search\<close>

























lemma DFS_loop_pass:
  "DFS_loop g n I DFI =
     (if sp_NonEmpty (theStack g) then
        do { (g', DFI') \<leftarrow> DFS_pass g n I DFI; DFS_loop g' n I DFI' }
      else Some (g, DFI))"
  by (subst DFS_loop.simps)
     (auto simp: DFS_pass_def Let_def split: Option.bind_split prod.split)






end
